theory Spec2Isabelle
  imports Main "HOL-Library.Log_Nat"
begin

section \<open>JavaScript numbers\<close>

text \<open>
  Every number of the handlers is an IEEE 754 binary64 value. A finite value is kept as
  the rational it denotes; the two infinities and NaN are separate constructors. The two
  zeros are identified: no flight field read from the store is a negative zero, and the
  only place where the sign of a zero could show is the divisor \<open>flight.totalSeats\<close>.
  Equality of the datatype is then the SameValueZero comparison of \<open>Array.includes\<close>.
\<close>

datatype jsnum = Fin rat | PosInf | NegInf | NaN

definition pow2 :: "int \<Rightarrow> rat" where
  "pow2 k = (if 0 \<le> k then 2 ^ nat k else 1 / 2 ^ nat (- k))"

text \<open>The binary exponent of a positive rational: the \<open>e\<close> with \<open>2^e \<le> a < 2^(e+1)\<close>.\<close>

definition ilog2 :: "rat \<Rightarrow> int" where
  "ilog2 a = (if 1 \<le> a then bitlen \<lfloor>a\<rfloor> - 1
              else - bitlen (\<lceil>1 / a\<rceil> - 1))"

definition round_half_even :: "rat \<Rightarrow> int" where
  "round_half_even m =
     (let f = \<lfloor>m\<rfloor>; r = m - of_int f
      in if r < 1 / 2 then f
         else if 1 / 2 < r then f + 1
         else if even f then f else f + 1)"

text \<open>
  Rounding of an exact result to binary64, round to nearest, ties to even: 53 significant
  bits, the quantum never below \<open>2^-1074\<close> (subnormals), infinity from \<open>2^1024\<close> on.
\<close>

definition fl :: "rat \<Rightarrow> jsnum" where
  "fl x =
     (if x = 0 then Fin 0
      else let a = \<bar>x\<bar>;
               k = max (ilog2 a - 52) (- 1074);
               y = of_int (round_half_even (a / pow2 k)) * pow2 k
           in if pow2 1024 \<le> y then (if 0 < x then PosInf else NegInf)
              else Fin (if 0 < x then y else - y))"

definition js_sgn :: "jsnum \<Rightarrow> int" where
  "js_sgn x = (case x of Fin a \<Rightarrow> (if 0 < a then 1 else if a < 0 then - 1 else 0)
                       | PosInf \<Rightarrow> 1 | NegInf \<Rightarrow> - 1 | NaN \<Rightarrow> 0)"

definition js_of_sgn :: "int \<Rightarrow> jsnum" where
  "js_of_sgn s = (if s = 0 then NaN else if 0 < s then PosInf else NegInf)"

text \<open>\<open>x * y\<close>\<close>

definition js_mul :: "jsnum \<Rightarrow> jsnum \<Rightarrow> jsnum" where
  "js_mul x y =
     (case (x, y) of
        (NaN, _) \<Rightarrow> NaN
      | (_, NaN) \<Rightarrow> NaN
      | (Fin a, Fin b) \<Rightarrow> fl (a * b)
      | _ \<Rightarrow> js_of_sgn (js_sgn x * js_sgn y))"

text \<open>\<open>x / y\<close>; a finite value over an infinity is a zero.\<close>

definition js_div :: "jsnum \<Rightarrow> jsnum \<Rightarrow> jsnum" where
  "js_div x y =
     (case (x, y) of
        (NaN, _) \<Rightarrow> NaN
      | (_, NaN) \<Rightarrow> NaN
      | (Fin a, Fin b) \<Rightarrow> (if b = 0 then js_of_sgn (js_sgn x) else fl (a / b))
      | (Fin a, _) \<Rightarrow> Fin 0
      | (_, Fin b) \<Rightarrow> js_of_sgn (js_sgn x * (if b < 0 then - 1 else 1))
      | _ \<Rightarrow> NaN)"

text \<open>\<open>x + y\<close>\<close>

definition js_add :: "jsnum \<Rightarrow> jsnum \<Rightarrow> jsnum" where
  "js_add x y =
     (case (x, y) of
        (NaN, _) \<Rightarrow> NaN
      | (_, NaN) \<Rightarrow> NaN
      | (Fin a, Fin b) \<Rightarrow> fl (a + b)
      | (Fin a, _) \<Rightarrow> y
      | (_, Fin b) \<Rightarrow> x
      | _ \<Rightarrow> (if x = y then x else NaN))"

definition js_neg :: "jsnum \<Rightarrow> jsnum" where
  "js_neg x = (case x of Fin a \<Rightarrow> Fin (- a) | PosInf \<Rightarrow> NegInf | NegInf \<Rightarrow> PosInf | NaN \<Rightarrow> NaN)"

text \<open>\<open>x - y\<close>\<close>

definition js_sub :: "jsnum \<Rightarrow> jsnum \<Rightarrow> jsnum" where
  "js_sub x y = js_add x (js_neg y)"

text \<open>\<open>x < y\<close>: false as soon as one side is NaN.\<close>

definition js_lt :: "jsnum \<Rightarrow> jsnum \<Rightarrow> bool" where
  "js_lt x y =
     (case (x, y) of
        (NaN, _) \<Rightarrow> False
      | (_, NaN) \<Rightarrow> False
      | (Fin a, Fin b) \<Rightarrow> a < b
      | (_, NegInf) \<Rightarrow> False
      | (PosInf, _) \<Rightarrow> False
      | _ \<Rightarrow> True)"

text \<open>\<open>x > y\<close>\<close>

definition js_gt :: "jsnum \<Rightarrow> jsnum \<Rightarrow> bool" where
  "js_gt x y = js_lt y x"

text \<open>\<open>x <= y\<close>: not the negation of \<open>x > y\<close>, since NaN fails both.\<close>

definition js_le :: "jsnum \<Rightarrow> jsnum \<Rightarrow> bool" where
  "js_le x y = (x \<noteq> NaN \<and> y \<noteq> NaN \<and> \<not> js_lt y x)"

text \<open>\<open>x >= y\<close>\<close>

definition js_ge :: "jsnum \<Rightarrow> jsnum \<Rightarrow> bool" where
  "js_ge x y = js_le y x"

text \<open>\<open>Math.round\<close>: the nearest integer, a tie going up.\<close>

definition Math_round :: "jsnum \<Rightarrow> jsnum" where
  "Math_round x = (case x of Fin a \<Rightarrow> Fin (of_int \<lfloor>a + 1 / 2\<rfloor>) | _ \<Rightarrow> x)"

text \<open>\<open>Math.ceil\<close>\<close>

definition Math_ceil :: "jsnum \<Rightarrow> jsnum" where
  "Math_ceil x = (case x of Fin a \<Rightarrow> Fin (of_int \<lceil>a\<rceil>) | _ \<Rightarrow> x)"

text \<open>A decimal literal of the source text, such as \<open>1.3\<close>.\<close>

definition js_lit :: "rat \<Rightarrow> jsnum" where
  "js_lit q = fl q"


section \<open>The flight record and the store\<close>

text \<open>
  A record of the \<open>Flights\<close> table with the attributes the handlers read.
  \<open>departureTime\<close> holds the time value of \<open>new Date(flight.departureTime)\<close>, in
  milliseconds, NaN for a date that does not parse. The list attributes are always
  present and are arrays (an array, even an empty one, is truthy, so the guards
  \<open>flight.occupiedSeats &&\<close> and \<open>flight.emergencyExitRows &&\<close> always pass).
\<close>

record flight =
  flightId :: string
  departureTime :: jsnum
  totalSeats :: jsnum
  availableSeats :: jsnum
  basePrice :: jsnum
  occupiedSeats :: "string list"
  emergencyExitRows :: "jsnum list"
  premiumSeats :: "string list"
  premiumSeatCost :: jsnum

type_synonym table = "string \<rightharpoonup> flight"

text \<open>A thrown value: \<open>new Error(message)\<close>, a TypeError or SyntaxError of the engine, or
  a rejection of the store client with its \<open>name\<close> and \<open>message\<close>.\<close>

datatype js_error =
    Error string
  | TypeError
  | SyntaxError
  | StoreError string string

fun error_name :: "js_error \<Rightarrow> string" where
  "error_name (Error m) = ''Error''"
| "error_name TypeError = ''TypeError''"
| "error_name SyntaxError = ''SyntaxError''"
| "error_name (StoreError n m) = n"

text \<open>
  What surrounds one request: a failure of the store client on the read or on the write
  (\<open>None\<close>: the store answers), what other clients do to the table between this
  request's read and its write, and the calendar date \<open>new Date()\<close> gives.
\<close>

datatype jsdate = CalendarDate int int int | InvalidDate

record env =
  get_fault :: "js_error option"
  update_fault :: "js_error option"
  interference :: "table \<Rightarrow> table"
  today :: jsdate

text \<open>\<open>docClient.send(new GetCommand({TableName: 'Flights', Key: {flightId}}))\<close>: the item
  or \<open>undefined\<close>.\<close>

definition send_GetCommand :: "env \<Rightarrow> table \<Rightarrow> string \<Rightarrow> js_error + flight option" where
  "send_GetCommand e tbl key =
     (case get_fault e of Some err \<Rightarrow> Inl err | None \<Rightarrow> Inr (tbl key))"

text \<open>
  \<open>docClient.send(new UpdateCommand(params))\<close> with
  \<open>UpdateExpression: 'SET occupiedSeats = list_append(occupiedSeats, :seats)'\<close> and
  \<open>ConditionExpression: 'attribute_exists(flightId)'\<close>: one atomic step of the store,
  which fails the condition when no item has the key.
\<close>

definition send_UpdateCommand ::
  "env \<Rightarrow> table \<Rightarrow> string \<Rightarrow> string list \<Rightarrow> js_error + table" where
  "send_UpdateCommand e tbl key seats =
     (case update_fault e of
        Some err \<Rightarrow> Inl err
      | None \<Rightarrow>
         (case tbl key of
            None \<Rightarrow> Inl (StoreError ''ConditionalCheckFailedException''
                            ''The conditional request failed'')
          | Some f \<Rightarrow> Inr (tbl(key \<mapsto> f\<lparr>occupiedSeats := occupiedSeats f @ seats\<rparr>))))"

section \<open>seat-map.js\<close>

subsection \<open>generateSeatMap\<close>

datatype seat_status = available | occupied

record seat =
  seat_id :: string
  seat_number :: string
  status :: seat_status
  isEmergencyExit :: bool
  isPremium :: bool

text \<open>The template literal \<open>`${row}`\<close> of a non-negative integer: its decimal digits.\<close>

fun string_of_nat :: "nat \<Rightarrow> string" where
  "string_of_nat n =
     (if n < 10 then [char_of (48 + n)]
      else string_of_nat (n div 10) @ [char_of (48 + n mod 10)])"

declare string_of_nat.simps [simp del]

definition rows :: nat where
  "rows = 30"

definition seatsPerRow :: nat where
  "seatsPerRow = 6"

definition seatLetter :: "nat \<Rightarrow> char" where
  "seatLetter seatNum = char_of (65 + seatNum)"

definition seatId :: "nat \<Rightarrow> nat \<Rightarrow> string" where
  "seatId row seatNum = string_of_nat row @ [seatLetter seatNum]"

text \<open>The object pushed for one seat.\<close>

definition makeSeat :: "flight \<Rightarrow> nat \<Rightarrow> nat \<Rightarrow> seat" where
  "makeSeat flight row seatNum =
     \<lparr>seat_id = seatId row seatNum,
      seat_number = seatId row seatNum,
      status = (if seatId row seatNum \<in> set (occupiedSeats flight) then occupied else available),
      isEmergencyExit = (Fin (of_nat row) \<in> set (emergencyExitRows flight)),
      isPremium = (seatId row seatNum \<in> set (premiumSeats flight))\<rparr>"

text \<open>The inner loop, \<open>for (let seatNum = 0; seatNum < seatsPerRow; seatNum++)\<close>.\<close>

function seatNum_loop :: "flight \<Rightarrow> nat \<Rightarrow> nat \<Rightarrow> seat list \<Rightarrow> seat list" where
  "seatNum_loop flight row seatNum seatMap =
     (if seatNum < seatsPerRow
      then seatNum_loop flight row (seatNum + 1) (seatMap @ [makeSeat flight row seatNum])
      else seatMap)"
  by pat_completeness auto
termination
  by (relation "measure (\<lambda>(flight, row, seatNum, seatMap). seatsPerRow - seatNum)") auto

declare seatNum_loop.simps [simp del]

text \<open>The outer loop, \<open>for (let row = 1; row <= rows; row++)\<close>.\<close>

function row_loop :: "flight \<Rightarrow> nat \<Rightarrow> seat list \<Rightarrow> seat list" where
  "row_loop flight row seatMap =
     (if row \<le> rows
      then row_loop flight (row + 1) (seatNum_loop flight row 0 seatMap)
      else seatMap)"
  by pat_completeness auto
termination
  by (relation "measure (\<lambda>(flight, row, seatMap). Suc rows - row)") auto

declare row_loop.simps [simp del]

definition generateSeatMap :: "flight \<Rightarrow> seat list" where
  "generateSeatMap flight = row_loop flight 1 []"

subsection \<open>getSeatMap, getFlight, reserveSeats\<close>

record seat_map =
  seats_of :: "seat list"
  emergencyExitRows_of :: "jsnum list"
  premiumSeats_of :: "string list"

definition getSeatMap :: "env \<Rightarrow> table \<Rightarrow> string \<Rightarrow> js_error + seat_map" where
  "getSeatMap e tbl fid =
     (case send_GetCommand e tbl fid of
        Inl err \<Rightarrow> Inl err
      | Inr None \<Rightarrow> Inl (Error ''Flight not found'')
      | Inr (Some flight) \<Rightarrow>
          Inr \<lparr>seats_of = generateSeatMap flight,
               emergencyExitRows_of = emergencyExitRows flight,
               premiumSeats_of = premiumSeats flight\<rparr>)"

definition getFlight :: "env \<Rightarrow> table \<Rightarrow> string \<Rightarrow> js_error + flight" where
  "getFlight e tbl fid =
     (case send_GetCommand e tbl fid of
        Inl err \<Rightarrow> Inl err
      | Inr None \<Rightarrow> Inl (Error ''Flight not found'')
      | Inr (Some flight) \<Rightarrow> Inr flight)"

definition reserveSeats :: "env \<Rightarrow> table \<Rightarrow> string \<Rightarrow> string list \<Rightarrow> js_error + table" where
  "reserveSeats e tbl fid seats =
     (case send_UpdateCommand e tbl fid seats of
        Inl err \<Rightarrow>
          (if error_name err = ''ConditionalCheckFailedException''
           then Inl (Error ''Concurrent seat reservation detected'')
           else Inl err)
      | Inr tbl' \<Rightarrow> Inr tbl')"

subsection \<open>The validators\<close>

text \<open>The \<open>seats\<close> field of a request: a falsy value (missing, \<open>null\<close>, \<open>0\<close>, \<open>''\<close>), a
  truthy value that is not an array, or an array of strings.\<close>

datatype seats_value = Falsy | NonArray | SeatArray "string list"

text \<open>A passenger with the calendar date \<open>new Date(passenger.dateOfBirth)\<close> denotes
  (\<open>getFullYear\<close>, \<open>getMonth\<close>, \<open>getDate\<close>), or the invalid date.\<close>

record passenger =
  dateOfBirth :: jsdate

text \<open>\<open>/^[1-9]\d?[A-F]$/.test(seat)\<close>\<close>

definition seatPattern_test :: "string \<Rightarrow> bool" where
  "seatPattern_test seat =
     (case seat of
        [a, c] \<Rightarrow> a \<in> set ''123456789'' \<and> c \<in> set ''ABCDEF''
      | [a, b, c] \<Rightarrow> a \<in> set ''123456789'' \<and> b \<in> set ''0123456789'' \<and> c \<in> set ''ABCDEF''
      | _ \<Rightarrow> False)"

definition validateSeatSelection :: "seats_value \<Rightarrow> passenger list \<Rightarrow> bool" where
  "validateSeatSelection seats passengers =
     (case seats of
        SeatArray ss \<Rightarrow>
          (if length ss = 0 then True
           else if length ss > length passengers then False
           else list_all seatPattern_test ss)
      | _ \<Rightarrow> False)"

definition validateSeatAvailability :: "string list \<Rightarrow> flight \<Rightarrow> bool" where
  "validateSeatAvailability seats flight =
     (if length seats = 0 then True
      else let unavailableSeats = filter (\<lambda>seat. seat \<in> set (occupiedSeats flight)) seats
           in if length unavailableSeats > 0 then False else True)"

text \<open>
  \<open>parseInt(string)\<close> without a radix: leading white space is dropped, then a sign, then
  \<open>0x\<close> or \<open>0X\<close> selects base 16; the longest run of digits is read, NaN when it is
  empty. Strings are ASCII here.
\<close>

definition is_white_space :: "char \<Rightarrow> bool" where
  "is_white_space c = (c \<in> {CHR 0x09, CHR 0x0A, CHR 0x0B, CHR 0x0C, CHR 0x0D, CHR 0x20})"

definition digit_value :: "nat \<Rightarrow> char \<Rightarrow> nat option" where
  "digit_value radix c =
     (let n = (of_char c :: nat);
          v = (if 48 \<le> n \<and> n \<le> 57 then Some (n - 48)
               else if 97 \<le> n \<and> n \<le> 122 then Some (n - 87)
               else if 65 \<le> n \<and> n \<le> 90 then Some (n - 55)
               else None)
      in case v of Some d \<Rightarrow> (if d < radix then Some d else None) | None \<Rightarrow> None)"

definition digits_value :: "nat \<Rightarrow> string \<Rightarrow> nat" where
  "digits_value radix z = foldl (\<lambda>acc c. acc * radix + the (digit_value radix c)) 0 z"

definition parseInt :: "string \<Rightarrow> jsnum" where
  "parseInt str =
     (let s1 = dropWhile is_white_space str;
          neg = (case s1 of c # _ \<Rightarrow> c = CHR ''-'' | [] \<Rightarrow> False);
          s2 = (case s1 of c # r \<Rightarrow> (if c = CHR ''-'' \<or> c = CHR ''+'' then r else s1) | [] \<Rightarrow> s1);
          hex = (case s2 of a # b # _ \<Rightarrow> a = CHR ''0'' \<and> (b = CHR ''x'' \<or> b = CHR ''X'') | _ \<Rightarrow> False);
          radix = (if hex then 16 else 10);
          s3 = (if hex then drop 2 s2 else s2);
          z = takeWhile (\<lambda>c. digit_value radix c \<noteq> None) s3
      in if z = [] then NaN
         else let n = of_nat (digits_value radix z) in fl (if neg then - n else n))"

definition calculateAge :: "jsdate \<Rightarrow> jsdate \<Rightarrow> int option" where
  "calculateAge now dob =
     (case (now, dob) of
        (CalendarDate ty tm td, CalendarDate by bm bd) \<Rightarrow>
          (let age = ty - by; monthDiff = tm - bm
           in if monthDiff < 0 \<or> (monthDiff = 0 \<and> td < bd) then Some (age - 1) else Some age)
      | _ \<Rightarrow> None)"

text \<open>\<open>age >= 15 && age <= 75\<close>, false for the NaN of an invalid date.\<close>

definition isEligibleForEmergencyRow :: "jsdate \<Rightarrow> passenger \<Rightarrow> bool" where
  "isEligibleForEmergencyRow now p =
     (case calculateAge now (dateOfBirth p) of
        Some age \<Rightarrow> 15 \<le> age \<and> age \<le> 75
      | None \<Rightarrow> False)"

text \<open>
  \<open>seats.every((seat, index) => ...)\<close>, stopping at the first seat whose callback returns
  false; \<open>passengers[index]\<close> beyond the array is \<open>undefined\<close>, and reading its
  \<open>dateOfBirth\<close> throws a TypeError.
\<close>

fun every_seat :: "jsdate \<Rightarrow> passenger list \<Rightarrow> flight \<Rightarrow> nat \<Rightarrow> string list \<Rightarrow> js_error + bool" where
  "every_seat now passengers flight index [] = Inr True"
| "every_seat now passengers flight index (seat # rest) =
     (if parseInt seat \<in> set (emergencyExitRows flight)
      then (if index < length passengers
            then (if isEligibleForEmergencyRow now (passengers ! index)
                  then every_seat now passengers flight (index + 1) rest
                  else Inr False)
            else Inl TypeError)
      else every_seat now passengers flight (index + 1) rest)"

definition validateEmergencyExitRows ::
  "jsdate \<Rightarrow> string list \<Rightarrow> passenger list \<Rightarrow> flight \<Rightarrow> js_error + bool" where
  "validateEmergencyExitRows now seats passengers flight =
     (if length seats = 0 then Inr True else every_seat now passengers flight 0 seats)"

definition calculateSeatCost :: "string list \<Rightarrow> flight \<Rightarrow> jsnum" where
  "calculateSeatCost seats flight =
     foldl (\<lambda>total seat. if seat \<in> set (premiumSeats flight)
                          then js_add total (premiumSeatCost flight) else total)
           (Fin 0) seats"

subsection \<open>handler\<close>

text \<open>
  The body of the event: a string \<open>JSON.parse\<close> rejects, \<open>undefined\<close> or \<open>null\<close>, or an
  object whose fields are read. An absent \<open>action\<close> or \<open>flightId\<close> is the empty string
  (both are falsy and match no \<open>case\<close>); an absent or falsy \<open>passengers\<close> is \<open>None\<close>.
\<close>

record request_data =
  action :: string
  req_flightId :: string
  req_seats :: seats_value
  req_passengers :: "passenger list option"

datatype event_body = Unparseable | Nullish | RequestData request_data

record event =
  httpMethod :: string
  requestContext_http_method :: string
  body :: event_body

text \<open>The parsed body of a response; the headers are the same constants on every path
  and are left out. \<open>InternalError err\<close> is
  \<open>{error: 'Internal server error', details: err.message}\<close>.\<close>

datatype response_body =
    EmptyBody
  | ErrorBody string
  | InternalError js_error
  | SeatMapBody seat_map
  | ReservedBody "string list" jsnum

record response =
  statusCode :: nat
  response_body :: response_body

definition createResponse :: "nat \<Rightarrow> response_body \<Rightarrow> response" where
  "createResponse code b = \<lparr>statusCode = code, response_body = b\<rparr>"

text \<open>The \<open>reserveSeats\<close> case of the switch. The result is the response and the table
  the request leaves behind.\<close>

definition handle_reserveSeats :: "env \<Rightarrow> table \<Rightarrow> request_data \<Rightarrow> response \<times> table" where
  "handle_reserveSeats e tbl rd =
     (case (req_flightId rd = [] \<or> req_seats rd = Falsy, req_passengers rd) of
        (True, _) \<Rightarrow>
          (createResponse 400 (ErrorBody
             ''Missing required fields: flightId, seats, and passengers are required''), tbl)
      | (False, None) \<Rightarrow>
          (createResponse 400 (ErrorBody
             ''Missing required fields: flightId, seats, and passengers are required''), tbl)
      | (False, Some passengers) \<Rightarrow>
          (if \<not> validateSeatSelection (req_seats rd) passengers
           then (createResponse 400 (ErrorBody ''Invalid seat selection''), tbl)
           else
             (case getFlight e tbl (req_flightId rd) of
                Inl err \<Rightarrow> (createResponse 500 (InternalError err), tbl)
              | Inr flight \<Rightarrow>
                  (let seats = (case req_seats rd of SeatArray ss \<Rightarrow> ss | _ \<Rightarrow> [])
                   in if \<not> validateSeatAvailability seats flight
                      then (createResponse 409
                              (ErrorBody ''Selected seats are no longer available''), tbl)
                      else
                        (case validateEmergencyExitRows (today e) seats passengers flight of
                           Inl err \<Rightarrow> (createResponse 500 (InternalError err), tbl)
                         | Inr False \<Rightarrow>
                             (createResponse 400
                                (ErrorBody ''Invalid emergency exit row selection''), tbl)
                         | Inr True \<Rightarrow>
                             (case reserveSeats e (interference e tbl) (req_flightId rd) seats of
                                Inl err \<Rightarrow>
                                  (createResponse 500 (InternalError err), interference e tbl)
                              | Inr tbl' \<Rightarrow>
                                  (createResponse 200
                                     (ReservedBody seats (calculateSeatCost seats flight)),
                                   tbl')))))))"

definition handle_getSeatMap :: "env \<Rightarrow> table \<Rightarrow> request_data \<Rightarrow> response \<times> table" where
  "handle_getSeatMap e tbl rd =
     (if req_flightId rd = []
      then (createResponse 400 (ErrorBody ''Flight ID is required''), tbl)
      else (case getSeatMap e tbl (req_flightId rd) of
              Inl err \<Rightarrow> (createResponse 500 (InternalError err), tbl)
            | Inr seatMap \<Rightarrow> (createResponse 200 (SeatMapBody seatMap), tbl)))"

definition handler :: "env \<Rightarrow> table \<Rightarrow> event \<Rightarrow> response \<times> table" where
  "handler e tbl ev =
     (if body ev = Unparseable
      then (createResponse 500 (InternalError SyntaxError), tbl)
      else if httpMethod ev = ''OPTIONS''
      then (\<lparr>statusCode = 200, response_body = EmptyBody\<rparr>, tbl)
      else if httpMethod ev \<noteq> ''POST'' \<and> requestContext_http_method ev \<noteq> ''POST''
      then (createResponse 405 (ErrorBody ''Method not allowed''), tbl)
      else
        (case body ev of
           RequestData rd \<Rightarrow>
             (if action rd = ''getSeatMap'' then handle_getSeatMap e tbl rd
              else if action rd = ''reserveSeats'' then handle_reserveSeats e tbl rd
              else (createResponse 400 (ErrorBody ''Invalid action specified''), tbl))
         | _ \<Rightarrow> (createResponse 500 (InternalError TypeError), tbl)))"

text \<open>The status classes of the responses.\<close>

datatype classification = Success | BadInput | NotFound | MethodNotAllowed | Conflict | Internal | Other

definition classify :: "nat \<Rightarrow> classification" where
  "classify code =
     (if code = 200 then Success
      else if code = 400 then BadInput
      else if code = 404 then NotFound
      else if code = 405 then MethodNotAllowed
      else if code = 409 then Conflict
      else if code = 500 then Internal
      else Other)"

section \<open>search-flights.js\<close>

text \<open>The body of the callback of \<open>flights.map\<close> in \<open>applyDynamicPricing\<close>, up to the
  price; \<open>now\<close> is the time value of \<open>new Date()\<close>.\<close>

definition dynamicPrice :: "jsnum \<Rightarrow> flight \<Rightarrow> jsnum" where
  "dynamicPrice now flight =
     (let flightDate = departureTime flight;
          daysUntilFlight =
            Math_ceil (js_div (js_sub flightDate now)
                         (js_mul (js_mul (js_mul (Fin 1000) (Fin 60)) (Fin 60)) (Fin 24)));
          priceMultiplier = Fin 1;
          priceMultiplier =
            (if js_le daysUntilFlight (Fin 7) then js_mul priceMultiplier (js_lit (13 / 10))
             else if js_le daysUntilFlight (Fin 14) then js_mul priceMultiplier (js_lit (12 / 10))
             else if js_le daysUntilFlight (Fin 30) then js_mul priceMultiplier (js_lit (11 / 10))
             else priceMultiplier);
          occupancyRate =
            js_div (js_sub (totalSeats flight) (availableSeats flight)) (totalSeats flight);
          priceMultiplier =
            (if js_gt occupancyRate (js_lit (8 / 10)) then js_mul priceMultiplier (js_lit (14 / 10))
             else if js_gt occupancyRate (js_lit (6 / 10)) then js_mul priceMultiplier (js_lit (12 / 10))
             else priceMultiplier)
      in js_div (Math_round (js_mul (js_mul (basePrice flight) priceMultiplier) (Fin 100)))
           (Fin 100))"

text \<open>\<open>{...flight, price}\<close>: the flight with its price.\<close>

definition applyDynamicPricing :: "jsnum \<Rightarrow> flight list \<Rightarrow> (flight \<times> jsnum) list" where
  "applyDynamicPricing now flights = map (\<lambda>flight. (flight, dynamicPrice now flight)) flights"

section \<open>The age in the words of the specification\<close>

text \<open>
  Calendar dates are triples of year, month and day, ordered lexicographically. The age
  in whole years is the \<open>a\<close> whose anniversary has been reached while the next one has
  not: the birthday of year \<open>birth year + a\<close> is today or earlier, that of the year
  after is still to come.
\<close>

definition on_or_before :: "int \<times> int \<times> int \<Rightarrow> int \<times> int \<times> int \<Rightarrow> bool" where
  "on_or_before a b =
     (case (a, b) of
        ((y1, m1, d1), (y2, m2, d2)) \<Rightarrow>
          y1 < y2 \<or> (y1 = y2 \<and> (m1 < m2 \<or> (m1 = m2 \<and> d1 \<le> d2))))"

definition whole_years :: "jsdate \<Rightarrow> jsdate \<Rightarrow> int \<Rightarrow> bool" where
  "whole_years now dob a =
     (case (now, dob) of
        (CalendarDate ty tm td, CalendarDate by bm bd) \<Rightarrow>
          on_or_before (by + a, bm, bd) (ty, tm, td)
          \<and> \<not> on_or_before (by + a + 1, bm, bd) (ty, tm, td)
      | _ \<Rightarrow> False)"

section \<open>The fare in the words of the specification\<close>

text \<open>
  The fare is the base price times the time factor times the occupancy factor, rounded
  to two decimal places with \<open>Math.round\<close>. The time factor is 1.3 up to 7 days to
  departure, 1.2 up to 14, 1.1 up to 30 and 1.0 beyond; the occupancy factor is 1.4
  above an occupancy of 0.8, 1.2 above 0.6 and 1.0 otherwise. Numbers and products are
  those of JavaScript.
\<close>

definition timeFactor :: "jsnum \<Rightarrow> jsnum" where
  "timeFactor days =
     (if js_le days (Fin 7) then js_lit (13 / 10)
      else if js_le days (Fin 14) then js_lit (12 / 10)
      else if js_le days (Fin 30) then js_lit (11 / 10)
      else Fin 1)"

definition occupancyFactor :: "jsnum \<Rightarrow> jsnum" where
  "occupancyFactor occupancy =
     (if js_gt occupancy (js_lit (8 / 10)) then js_lit (14 / 10)
      else if js_gt occupancy (js_lit (6 / 10)) then js_lit (12 / 10)
      else Fin 1)"

definition daysToDeparture :: "jsnum \<Rightarrow> flight \<Rightarrow> jsnum" where
  "daysToDeparture now flight =
     Math_ceil (js_div (js_sub (departureTime flight) now) (Fin 86400000))"

definition occupancy :: "flight \<Rightarrow> jsnum" where
  "occupancy flight =
     js_div (js_sub (totalSeats flight) (availableSeats flight)) (totalSeats flight)"

definition round2 :: "jsnum \<Rightarrow> jsnum" where
  "round2 x = js_div (Math_round (js_mul x (Fin 100))) (Fin 100)"

definition fare :: "jsnum \<Rightarrow> flight \<Rightarrow> jsnum" where
  "fare now flight =
     round2 (js_mul (basePrice flight)
               (js_mul (timeFactor (daysToDeparture now flight))
                       (occupancyFactor (occupancy flight))))"

section \<open>Example data\<close>

text \<open>A flight with no seat taken, row 14 an emergency exit row and seat 1A premium.\<close>

definition flight_AB123 :: flight where
  "flight_AB123 =
     \<lparr>flightId = ''AB123'', departureTime = Fin 1767225600000,
      totalSeats = Fin 180, availableSeats = Fin 180, basePrice = Fin 200,
      occupiedSeats = [], emergencyExitRows = [Fin 14], premiumSeats = [''1A''],
      premiumSeatCost = Fin 25\<rparr>"

definition table_AB123 :: table where
  "table_AB123 = [''AB123'' \<mapsto> flight_AB123]"

text \<open>The store answers, nobody else writes, and today is 14 June 2025 (\<open>getMonth\<close>
  counts from 0).\<close>

definition env_quiet :: env where
  "env_quiet =
     \<lparr>get_fault = None, update_fault = None, interference = (\<lambda>tbl. tbl),
      today = CalendarDate 2025 5 14\<rparr>"

text \<open>As before, but another client deletes flight AB123 between the read and the
  write.\<close>

definition env_vanish :: env where
  "env_vanish = env_quiet\<lparr>interference := (\<lambda>tbl. tbl(''AB123'' := None))\<rparr>"

definition born :: "int \<Rightarrow> int \<Rightarrow> int \<Rightarrow> passenger" where
  "born y m d = \<lparr>dateOfBirth = CalendarDate y m d\<rparr>"

definition getSeatMap_data :: "string \<Rightarrow> request_data" where
  "getSeatMap_data fid =
     \<lparr>action = ''getSeatMap'', req_flightId = fid, req_seats = Falsy, req_passengers = None\<rparr>"

definition reserveSeats_data :: "string \<Rightarrow> string list \<Rightarrow> passenger list \<Rightarrow> request_data" where
  "reserveSeats_data fid seats passengers =
     \<lparr>action = ''reserveSeats'', req_flightId = fid,
      req_seats = SeatArray seats, req_passengers = Some passengers\<rparr>"

definition post :: "request_data \<Rightarrow> event" where
  "post rd = \<lparr>httpMethod = ''POST'', requestContext_http_method = [], body = RequestData rd\<rparr>"

section \<open>Rounding to binary64\<close>

text \<open>\<open>ilog2\<close> is the binary exponent, so \<open>fl\<close> rounds to 53 significant bits; integers
  below \<open>2^53\<close> are not changed by it.\<close>

lemma pow2_powi: "pow2 k = 2 powi k"
  by (simp add: pow2_def power_int_def power_one_over inverse_eq_divide)

lemma pow2_pos: "0 < pow2 k"
  by (simp add: pow2_powi)

lemma pow2_strict_mono: "a < b \<Longrightarrow> pow2 a < pow2 b"
  by (simp add: pow2_powi power_int_strict_increasing)

lemma pow2_less_cancel: "pow2 a < pow2 b \<Longrightarrow> a < b"
proof (rule ccontr)
  assume lt: "pow2 a < pow2 b" and "\<not> a < b"
  then have "b \<le> a" by simp
  then have "pow2 b \<le> pow2 a"
    by (simp add: pow2_powi power_int_increasing)
  with lt show False by simp
qed

lemma pow2_nat: "0 \<le> k \<Longrightarrow> pow2 k = 2 ^ nat k"
  by (simp add: pow2_def)

lemma pow2_neg: "k \<le> 0 \<Longrightarrow> pow2 k = 1 / 2 ^ nat (- k)"
  by (cases "k = 0") (simp_all add: pow2_def)

lemma ilog2_bounds:
  assumes "0 < a"
  shows "pow2 (ilog2 a) \<le> a \<and> a < pow2 (ilog2 a + 1)"
proof (cases "1 \<le> a")
  case True
  define f where "f = \<lfloor>a\<rfloor>"
  define b where "b = bitlen f"
  from True have f: "0 < f" by (simp add: f_def)
  from bitlen_bounds [OF f] have lo: "2 ^ nat (b - 1) \<le> f" and hi: "f < 2 ^ nat b"
    by (simp_all add: b_def)
  from f have b: "1 \<le> b"
    using bitlen_eq_zero_iff [of f] bitlen_nonneg [of f] by (simp add: b_def)
  have il: "ilog2 a = b - 1"
    using True by (simp add: ilog2_def b_def f_def)
  from lo have "(of_int (2 ^ nat (b - 1)) :: rat) \<le> of_int f"
    by (simp only: of_int_le_iff)
  also have "\<dots> \<le> a" by (simp add: f_def)
  finally have 1: "pow2 (b - 1) \<le> a"
    using b by (simp add: pow2_nat)
  from hi have "f + 1 \<le> 2 ^ nat b" by simp
  then have "(of_int (f + 1) :: rat) \<le> of_int (2 ^ nat b)"
    by (simp only: of_int_le_iff)
  moreover have "a < of_int (f + 1)"
    using floor_correct [of a] by (simp add: f_def)
  ultimately have 2: "a < pow2 b"
    using b by (simp add: pow2_nat)
  from 1 2 show ?thesis by (simp add: il)
next
  case False
  define c where "c = \<lceil>1 / a\<rceil>"
  define j where "j = bitlen (c - 1)"
  from False assms have inv: "1 < 1 / a" by simp
  then have c: "2 \<le> c"
    unfolding c_def by (simp add: le_ceiling_iff)
  then have c1: "0 < c - 1" by simp
  from bitlen_bounds [OF c1] have lo: "2 ^ nat (j - 1) \<le> c - 1" and hi: "c - 1 < 2 ^ nat j"
    by (simp_all add: j_def)
  from c1 have j: "1 \<le> j"
    using bitlen_eq_zero_iff [of "c - 1"] bitlen_nonneg [of "c - 1"] by (simp add: j_def)
  have il: "ilog2 a = - j"
    using False by (simp add: ilog2_def j_def c_def)
  from hi have "c \<le> 2 ^ nat j" by simp
  then have "(of_int c :: rat) \<le> of_int (2 ^ nat j)"
    by (simp only: of_int_le_iff)
  moreover have "1 / a \<le> of_int c"
    by (simp add: c_def)
  ultimately have "1 / a \<le> of_int (2 ^ nat j)" by linarith
  then have "1 / a \<le> 2 ^ nat j" by simp
  with assms have "1 / 2 ^ nat j \<le> a"
    by (simp add: field_simps)
  then have 1: "pow2 (- j) \<le> a"
    using j by (simp add: pow2_neg)
  from lo have "(of_int (2 ^ nat (j - 1)) :: rat) \<le> of_int (c - 1)"
    by (simp only: of_int_le_iff)
  moreover have "of_int (c - 1) < 1 / a"
    using ceiling_correct [of "1 / a"] by (simp add: c_def)
  ultimately have "2 ^ nat (j - 1) < 1 / a" by simp
  with assms have "a < 1 / 2 ^ nat (j - 1)"
    by (simp add: field_simps)
  moreover have "pow2 (- j + 1) = 1 / 2 ^ nat (j - 1)"
    using j pow2_neg [of "- j + 1"] by simp
  ultimately have 2: "a < pow2 (- j + 1)" by simp
  from 1 2 show ?thesis by (simp add: il)
qed

lemma ilog2_unique:
  assumes "0 < a" "pow2 e \<le> a" "a < pow2 (e + 1)"
  shows "ilog2 a = e"
proof -
  from ilog2_bounds [OF assms(1)] assms(2,3)
  have up: "pow2 (ilog2 a) < pow2 (e + 1)" and lo: "pow2 e < pow2 (ilog2 a + 1)"
    by simp_all
  from pow2_less_cancel [OF up] pow2_less_cancel [OF lo] show ?thesis
    by simp
qed


lemma round_half_even_of_int: "round_half_even (of_int n) = n"
  by (simp add: round_half_even_def)

lemma fl_of_nat_pos:
  assumes "0 < n" "n < 2 ^ 53"
  shows "fl (of_int n) = Fin (of_int n)"
proof -
  define a :: rat where "a = of_int n"
  define e where "e = ilog2 a"
  from assms have a: "0 < a" "1 \<le> a" "a < 2 ^ 53"
    by (simp_all add: a_def of_int_less_numeral_power_cancel_iff)
  from ilog2_bounds [OF a(1)] have lo: "pow2 e \<le> a" and hi: "a < pow2 (e + 1)"
    by (simp_all add: e_def)
  from a(2) hi have "pow2 0 < pow2 (e + 1)" by (simp add: pow2_def)
  then have e0: "0 \<le> e" using pow2_less_cancel by fastforce
  from lo a(3) have "pow2 e < pow2 53" by (simp add: pow2_def)
  then have e52: "e \<le> 52" using pow2_less_cancel by fastforce
  define k where "k = e - 52"
  from e52 have k0: "k \<le> 0" by (simp add: k_def)
  from e0 have km: "max (e - 52) (- 1074) = k" by (simp add: k_def)
  have pk: "pow2 k = 1 / 2 ^ nat (- k)"
    using k0 by (rule pow2_neg)
  have q: "a / pow2 k = of_int (n * 2 ^ nat (- k))"
    by (simp add: pk a_def)
  have y: "of_int (round_half_even (a / pow2 k)) * pow2 k = a"
    by (simp only: q round_half_even_of_int) (simp add: pk a_def)
  have big: "\<not> pow2 1024 \<le> a"
  proof -
    have "a < pow2 53" using a(3) by (simp add: pow2_def)
    also have "pow2 53 < pow2 1024" by (rule pow2_strict_mono) simp
    finally show ?thesis by simp
  qed
  from a(1) have "fl a = Fin a"
    unfolding fl_def by (simp add: Let_def km y big flip: e_def)
  then show ?thesis by (simp add: a_def)
qed

lemma fl_neg: "fl (- x) = js_neg (fl x)"
  by (simp add: fl_def js_neg_def Let_def)

lemma fl_of_int:
  assumes "\<bar>n\<bar> < 2 ^ 53"
  shows "fl (of_int n) = Fin (of_int n)"
proof -
  consider "n = 0" | "0 < n" | "n < 0" by linarith
  then show ?thesis
  proof cases
    case 1
    then show ?thesis by (simp add: fl_def)
  next
    case 2
    with assms show ?thesis by (simp add: fl_of_nat_pos)
  next
    case 3
    with assms have "fl (of_int (- n)) = Fin (of_int (- n))"
      by (intro fl_of_nat_pos) simp_all
    then have "js_neg (fl (of_int n)) = Fin (- of_int n)"
      by (simp add: fl_neg)
    then show ?thesis
      by (cases "fl (of_int n)") (simp_all add: js_neg_def)
  qed
qed

lemma round_half_even_le: "round_half_even z \<le> \<lfloor>z\<rfloor> + 1"
  by (simp add: round_half_even_def Let_def)

lemma fl_eval:
  assumes x: "0 < x" "pow2 e \<le> x" "x < pow2 (e + 1)"
    and e: "- 1022 \<le> e" "e \<le> 52"
    and m: "round_half_even (x * 2 ^ nat (52 - e)) = m"
  shows "fl x = Fin (of_int m / 2 ^ nat (52 - e))"
proof -
  define k where "k = e - 52"
  from e have km: "max (e - 52) (- 1074) = k" and k0: "k \<le> 0" and nk: "nat (- k) = nat (52 - e)"
    by (simp_all add: k_def)
  have pk: "pow2 k = 1 / 2 ^ nat (52 - e)"
    using pow2_neg [OF k0] by (simp only: nk)
  have q: "x / pow2 k = x * 2 ^ nat (52 - e)"
    by (simp add: pk)
  have "x * 2 ^ nat (52 - e) < pow2 (e + 1) * 2 ^ nat (52 - e)"
    using x(3) by simp
  also have "pow2 (e + 1) * 2 ^ nat (52 - e) = pow2 (e + 1) * pow2 (52 - e)"
    using e by (simp add: pow2_nat)
  also have "\<dots> = pow2 53"
    by (simp add: pow2_powi flip: power_int_add)
  finally have "x * 2 ^ nat (52 - e) < 2 ^ 53"
    by (simp add: pow2_def)
  then have "\<lfloor>x * 2 ^ nat (52 - e)\<rfloor> < 9007199254740992"
    by (simp add: floor_less_iff)
  with round_half_even_le [of "x * 2 ^ nat (52 - e)"] have "m \<le> 9007199254740992"
    unfolding m by linarith
  then have "m \<le> 2 ^ 53"
    by simp
  then have "(of_int m :: rat) \<le> 2 ^ 53"
    by (simp add: of_int_le_numeral_power_cancel_iff)
  then have "of_int m * pow2 k \<le> 2 ^ 53 * pow2 k"
    using pow2_pos [of k] by simp
  also have "\<dots> \<le> 2 ^ 53 * pow2 0"
  proof -
    have "(1::rat) \<le> 2 ^ nat (52 - e)"
      by (rule one_le_power) simp
    then have "pow2 k \<le> 1"
      by (simp add: pk)
    then show ?thesis
      by (simp add: pow2_def)
  qed
  also have "\<dots> < pow2 1024"
    by (simp add: pow2_def)
  finally have big: "\<not> pow2 1024 \<le> of_int m * pow2 k"
    by simp
  from x(1) have "fl x = Fin (of_int m * pow2 k)"
    unfolding fl_def by (simp add: Let_def ilog2_unique [OF x] km q m big)
  then show ?thesis
    by (simp add: pk)
qed

lemma floor_rat_numeral: "\<lfloor>(numeral a :: rat) / numeral b\<rfloor> = numeral a div numeral b"
  by (metis floor_divide_of_int_eq of_int_numeral)

lemma fl_13_10: "fl (13 / 10) = Fin (5854679515581645 / 4503599627370496)"
proof -
  have "round_half_even (13 / 10 * 2 ^ nat (52 - 0)) = 5854679515581645"
    by (simp add: round_half_even_def Let_def floor_rat_numeral)
  from fl_eval [of "13 / 10" 0, OF _ _ _ _ _ this] show ?thesis
    by (simp add: pow2_def)
qed

lemma fl_40: "fl 40 = Fin 40"
  using fl_of_int [of 40] by simp

section \<open>The empty selection\<close>

text \<open>
  C6. A selection of length 0 passes every validator, whatever the passengers and the
  flight record are: \<open>validateSeatSelection\<close> returns before its cardinality and format
  checks, \<open>validateSeatAvailability\<close> before looking at the occupied seats, and
  \<open>validateEmergencyExitRows\<close> before looking at any passenger.
\<close>

theorem empty_selection_valid:
  "validateSeatSelection (SeatArray []) passengers
   \<and> validateSeatAvailability [] flight
   \<and> validateEmergencyExitRows now [] passengers flight = Inr True"
  by (simp add: validateSeatSelection_def validateSeatAvailability_def
        validateEmergencyExitRows_def)

section \<open>The seat map\<close>

text \<open>The two loops of \<open>generateSeatMap\<close> push the seats of one row after those of the
  rows before it.\<close>

lemma seatNum_loop_eq:
  "seatNum_loop flight row seatNum seatMap =
     seatMap @ map (makeSeat flight row) [seatNum..<seatsPerRow]"
proof (induction flight row seatNum seatMap rule: seatNum_loop.induct)
  case (1 flight row seatNum seatMap)
  show ?case
  proof (cases "seatNum < seatsPerRow")
    case True
    with "1.IH" show ?thesis
      by (subst seatNum_loop.simps) (simp add: upt_conv_Cons)
  next
    case False
    then show ?thesis
      by (subst seatNum_loop.simps) simp
  qed
qed

lemma row_loop_eq:
  "row_loop flight row seatMap =
     seatMap @ concat (map (\<lambda>r. map (makeSeat flight r) [0..<seatsPerRow]) [row..<Suc rows])"
proof (induction flight row seatMap rule: row_loop.induct)
  case (1 flight row seatMap)
  show ?case
  proof (cases "row \<le> rows")
    case True
    with "1.IH" show ?thesis
      by (subst row_loop.simps) (simp add: upt_conv_Cons seatNum_loop_eq del: upt_Suc)
  next
    case False
    then show ?thesis
      by (subst row_loop.simps) simp
  qed
qed

lemma concat_rows_index:
  "concat (map (\<lambda>r. map (h r) [0..<m]) [a..<a + n]) =
     map (\<lambda>k. h (a + k div m) (k mod m)) [0..<n * m]"
proof (induction n)
  case 0
  show ?case by simp
next
  case (Suc n)
  have "map (\<lambda>j. j + n * m) [0..<m] = [n * m..<m + n * m]"
    by (rule map_add_upt)
  moreover have "[0..<n * m + m] = [0..<n * m] @ [n * m..<n * m + m]"
    by (rule upt_add_eq_append) simp
  moreover have "Suc n * m = n * m + m" and "m + n * m = n * m + m"
    by simp_all
  ultimately have split: "[0..<Suc n * m] = [0..<n * m] @ map (\<lambda>j. j + n * m) [0..<m]"
    by (simp only:)
  have last: "map (\<lambda>k. h (a + k div m) (k mod m)) (map (\<lambda>j. j + n * m) [0..<m]) =
      map (h (a + n)) [0..<m]"
    by (simp add: comp_def)
  have "concat (map (\<lambda>r. map (h r) [0..<m]) [a..<a + Suc n]) =
      concat (map (\<lambda>r. map (h r) [0..<m]) [a..<a + n]) @ map (h (a + n)) [0..<m]"
    by simp
  also have "\<dots> = map (\<lambda>k. h (a + k div m) (k mod m)) [0..<n * m] @ map (h (a + n)) [0..<m]"
    by (simp only: Suc.IH)
  also have "\<dots> = map (\<lambda>k. h (a + k div m) (k mod m)) [0..<Suc n * m]"
    by (simp only: split map_append last)
  finally show ?case .
qed

lemma generateSeatMap_index:
  "generateSeatMap flight = map (\<lambda>k. makeSeat flight (1 + k div 6) (k mod 6)) [0..<180]"
proof -
  have e: "(30::nat) * 6 = 180"
    by simp
  show ?thesis
    using concat_rows_index [of "makeSeat flight" 6 1 30]
    by (simp only: generateSeatMap_def row_loop_eq rows_def seatsPerRow_def append_Nil
          Suc_eq_plus1_left e)
qed

lemma string_of_nat_nonempty: "string_of_nat n \<noteq> []"
  by (subst string_of_nat.simps) simp

lemma char_of_nat_inj:
  "a < 256 \<Longrightarrow> b < 256 \<Longrightarrow> (char_of (a::nat) :: char) = char_of b \<Longrightarrow> a = b"
proof -
  assume a: "a < 256" and b: "b < 256" and eq: "(char_of a :: char) = char_of b"
  from eq have "(of_char (char_of a :: char) :: nat) = of_char (char_of b :: char)"
    by simp
  then have "a mod 256 = b mod 256"
    by (simp only: of_char_of)
  with a b show "a = b" by simp
qed

lemma div_mod_10_eq:
  assumes "n div 10 = m div 10" "n mod 10 = m mod 10"
  shows "n = (m::nat)"
proof -
  have "n = n div 10 * 10 + n mod 10"
    by (simp only: div_mult_mod_eq)
  also have "\<dots> = m div 10 * 10 + m mod 10"
    by (simp only: assms)
  also have "\<dots> = m"
    by (simp only: div_mult_mod_eq)
  finally show ?thesis .
qed

lemma div_mod_6_eq:
  assumes "1 + x div 6 = 1 + y div 6 \<and> x mod 6 = y mod 6"
  shows "x = (y::nat)"
proof -
  from assms have d: "x div 6 = y div 6" and m: "x mod 6 = y mod 6"
    by simp_all
  have "x = x div 6 * 6 + x mod 6"
    by (simp only: div_mult_mod_eq)
  also have "\<dots> = y div 6 * 6 + y mod 6"
    by (simp only: d m)
  also have "\<dots> = y"
    by (simp only: div_mult_mod_eq)
  finally show ?thesis .
qed

lemma string_of_nat_inj: "string_of_nat n = string_of_nat m \<Longrightarrow> n = m"
proof (induction n arbitrary: m rule: string_of_nat.induct)
  case (1 n)
  have small: "string_of_nat k = [char_of (48 + k)]" if "k < 10" for k
    using that by (subst string_of_nat.simps) simp
  have large: "string_of_nat k = string_of_nat (k div 10) @ [char_of (48 + k mod 10)]"
    if "\<not> k < 10" for k
    using that by (subst string_of_nat.simps) simp
  show ?case
  proof (cases "n < 10")
    case n: True
    show ?thesis
    proof (cases "m < 10")
      case m: True
      from "1.prems" have "[char_of (48 + n) :: char] = [char_of (48 + m)]"
        by (simp only: small [OF n] small [OF m])
      then have "(char_of (48 + n) :: char) = char_of (48 + m)"
        by simp
      with n m have "48 + n = 48 + m"
        using char_of_nat_inj [of "48 + n" "48 + m"] by simp
      then show ?thesis by simp
    next
      case m: False
      from "1.prems" have "[char_of (48 + n) :: char] =
          string_of_nat (m div 10) @ [char_of (48 + m mod 10)]"
        by (simp only: small [OF n] large [OF m])
      then show ?thesis
        using string_of_nat_nonempty [of "m div 10"] by (simp add: Cons_eq_append_conv)
    qed
  next
    case n: False
    show ?thesis
    proof (cases "m < 10")
      case m: True
      from "1.prems" have "string_of_nat (n div 10) @ [char_of (48 + n mod 10)] =
          [char_of (48 + m) :: char]"
        by (simp only: small [OF m] large [OF n])
      then show ?thesis
        using string_of_nat_nonempty [of "n div 10"] by (simp add: append_eq_Cons_conv)
    next
      case m: False
      from "1.prems" have "string_of_nat (n div 10) @ [char_of (48 + n mod 10)] =
          string_of_nat (m div 10) @ [char_of (48 + m mod 10)]"
        by (simp only: large [OF m] large [OF n])
      then have eq: "string_of_nat (n div 10) = string_of_nat (m div 10)"
        and ch: "(char_of (48 + n mod 10) :: char) = char_of (48 + m mod 10)"
        by simp_all
      from "1.IH" [OF n eq] have d: "n div 10 = m div 10" .
      have "48 + n mod 10 = 48 + m mod 10"
        using char_of_nat_inj [of "48 + n mod 10" "48 + m mod 10"] ch by simp
      then have "n mod 10 = m mod 10" by simp
      with d show ?thesis
        by (rule div_mod_10_eq)
    qed
  qed
qed

lemma seatId_inj:
  assumes "seatId r c = seatId r' c'" "c < 6" "c' < 6"
  shows "r = r' \<and> c = c'"
proof -
  from assms(1) have s: "string_of_nat r = string_of_nat r'"
    and ch: "(char_of (65 + c) :: char) = char_of (65 + c')"
    by (simp_all add: seatId_def seatLetter_def)
  from s have "r = r'"
    by (rule string_of_nat_inj)
  moreover have "65 + c = 65 + c'"
    using assms(2,3) by (intro char_of_nat_inj [OF _ _ ch]) simp_all
  ultimately show ?thesis by simp
qed

lemma seat_ids_distinct: "distinct (map seat_id (generateSeatMap flight))"
proof -
  have "inj_on (\<lambda>k. seatId (1 + k div 6) (k mod 6)) {0..<180::nat}"
  proof (rule inj_onI)
    fix x y :: nat
    assume "seatId (1 + x div 6) (x mod 6) = seatId (1 + y div 6) (y mod 6)"
    then have "1 + x div 6 = 1 + y div 6 \<and> x mod 6 = y mod 6"
      by (rule seatId_inj) simp_all
    then show "x = y"
      by (rule div_mod_6_eq)
  qed
  then show ?thesis
    by (simp add: generateSeatMap_index distinct_map comp_def makeSeat_def)
qed

lemma seatLetter_nth: "c < 6 \<Longrightarrow> seatLetter c = ''ABCDEF'' ! c"
proof -
  assume "c < 6"
  then consider "c = 0" | "c = 1" | "c = 2" | "c = 3" | "c = 4" | "c = 5"
    by linarith
  then show ?thesis
    by cases (simp_all add: seatLetter_def char_of_def bit_0)
qed

text \<open>
  C1. For every flight record the seat map has exactly 30 * 6 = 180 entries with
  pairwise distinct ids, in row-major order: the entry for row \<open>row\<close> (1 to 30) and
  column \<open>c\<close> (0 to 5, letters A to F) is at position \<open>(row - 1) * 6 + c\<close>; its id and
  number are the row followed by the letter, it is occupied iff its id is among the
  occupied seats, an emergency exit seat iff its row is among the emergency exit rows,
  and premium iff its id is among the premium seats.
\<close>

theorem generateSeatMap_layout:
  "length (generateSeatMap flight) = 180
   \<and> distinct (map seat_id (generateSeatMap flight))
   \<and> (\<forall>row\<in>{1..30}. \<forall>c\<in>{0..<6}.
        generateSeatMap flight ! ((row - 1) * 6 + c) =
          \<lparr>seat_id = string_of_nat row @ [''ABCDEF'' ! c],
           seat_number = string_of_nat row @ [''ABCDEF'' ! c],
           status = (if string_of_nat row @ [''ABCDEF'' ! c] \<in> set (occupiedSeats flight)
                     then occupied else available),
           isEmergencyExit = (Fin (of_nat row) \<in> set (emergencyExitRows flight)),
           isPremium = (string_of_nat row @ [''ABCDEF'' ! c] \<in> set (premiumSeats flight))\<rparr>)"
proof (intro conjI ballI)
  show "length (generateSeatMap flight) = 180"
    by (simp add: generateSeatMap_index)
  show "distinct (map seat_id (generateSeatMap flight))"
    by (rule seat_ids_distinct)
next
  fix row c :: nat
  assume row: "row \<in> {1..30}" and c: "c \<in> {0..<6}"
  define k where "k = (row - 1) * 6 + c"
  from row c have k: "k < 180" "1 + k div 6 = row" "k mod 6 = c"
    by (auto simp: k_def)
  from k(1) have "generateSeatMap flight ! k = makeSeat flight (1 + k div 6) (k mod 6)"
    by (simp add: generateSeatMap_index del: upt_Suc)
  also have "\<dots> = makeSeat flight row c"
    by (simp only: k)
  finally show "generateSeatMap flight ! ((row - 1) * 6 + c) =
      \<lparr>seat_id = string_of_nat row @ [''ABCDEF'' ! c],
       seat_number = string_of_nat row @ [''ABCDEF'' ! c],
       status = (if string_of_nat row @ [''ABCDEF'' ! c] \<in> set (occupiedSeats flight)
                 then occupied else available),
       isEmergencyExit = (Fin (of_nat row) \<in> set (emergencyExitRows flight)),
       isPremium = (string_of_nat row @ [''ABCDEF'' ! c] \<in> set (premiumSeats flight))\<rparr>"
    using c unfolding k_def makeSeat_def seatId_def by (simp add: seatLetter_nth)
qed

theorem generateSeatMap_layout_witness:
  "length (generateSeatMap flight_AB123) = 180
   \<and> generateSeatMap flight_AB123 ! 80 =
       \<lparr>seat_id = ''14C'', seat_number = ''14C'', status = available,
        isEmergencyExit = True, isPremium = False\<rparr>
   \<and> generateSeatMap flight_AB123 ! 0 =
       \<lparr>seat_id = ''1A'', seat_number = ''1A'', status = available,
        isEmergencyExit = False, isPremium = True\<rparr>"
proof -
  have r14: "14 \<in> {1..30::nat}" and c2: "2 \<in> {0..<6::nat}"
    and r1: "1 \<in> {1..30::nat}" and c0: "0 \<in> {0..<6::nat}"
    by simp_all
  have s14: "string_of_nat 14 = ''14''" and s1: "string_of_nat (Suc 0) = ''1''"
    by (simp_all add: string_of_nat.simps char_of_def bit_0)
  note all = generateSeatMap_layout [of flight_AB123]
  from all have len: "length (generateSeatMap flight_AB123) = 180"
    by blast
  from all r14 c2 have a: "generateSeatMap flight_AB123 ! ((14 - 1) * 6 + 2) =
      \<lparr>seat_id = string_of_nat 14 @ [''ABCDEF'' ! 2],
       seat_number = string_of_nat 14 @ [''ABCDEF'' ! 2],
       status = (if string_of_nat 14 @ [''ABCDEF'' ! 2] \<in> set (occupiedSeats flight_AB123)
                 then occupied else available),
       isEmergencyExit = (Fin (of_nat 14) \<in> set (emergencyExitRows flight_AB123)),
       isPremium = (string_of_nat 14 @ [''ABCDEF'' ! 2] \<in> set (premiumSeats flight_AB123))\<rparr>"
    by blast
  from all r1 c0 have b: "generateSeatMap flight_AB123 ! ((1 - 1) * 6 + 0) =
      \<lparr>seat_id = string_of_nat 1 @ [''ABCDEF'' ! 0],
       seat_number = string_of_nat 1 @ [''ABCDEF'' ! 0],
       status = (if string_of_nat 1 @ [''ABCDEF'' ! 0] \<in> set (occupiedSeats flight_AB123)
                 then occupied else available),
       isEmergencyExit = (Fin (of_nat 1) \<in> set (emergencyExitRows flight_AB123)),
       isPremium = (string_of_nat 1 @ [''ABCDEF'' ! 0] \<in> set (premiumSeats flight_AB123))\<rparr>"
    by blast
  from len a b show ?thesis
    by (simp add: s14 s1 flight_AB123_def)
qed

section \<open>Unknown flights and vanished flights\<close>

lemma getFlight_unknown:
  "get_fault e = None \<Longrightarrow> tbl fid = None \<Longrightarrow>
    getFlight e tbl fid = Inl (Error ''Flight not found'')"
  by (simp add: getFlight_def send_GetCommand_def)

lemma getFlight_known:
  "get_fault e = None \<Longrightarrow> tbl fid = Some flight \<Longrightarrow> getFlight e tbl fid = Inr flight"
  by (simp add: getFlight_def send_GetCommand_def)

lemma getSeatMap_unknown:
  "get_fault e = None \<Longrightarrow> tbl fid = None \<Longrightarrow>
    getSeatMap e tbl fid = Inl (Error ''Flight not found'')"
  by (simp add: getSeatMap_def send_GetCommand_def)

lemma reserveSeats_vanished:
  "update_fault e = None \<Longrightarrow> tbl fid = None \<Longrightarrow>
    reserveSeats e tbl fid seats = Inl (Error ''Concurrent seat reservation detected'')"
  by (simp add: reserveSeats_def send_UpdateCommand_def)

lemma reserveSeats_commit:
  "update_fault e = None \<Longrightarrow> tbl fid = Some flight \<Longrightarrow>
    reserveSeats e tbl fid seats =
      Inr (tbl(fid \<mapsto> flight\<lparr>occupiedSeats := occupiedSeats flight @ seats\<rparr>))"
  by (simp add: reserveSeats_def send_UpdateCommand_def)

lemma handler_post:
  "httpMethod ev = ''POST'' \<Longrightarrow> body ev = RequestData rd \<Longrightarrow>
    handler e tbl ev =
      (if action rd = ''getSeatMap'' then handle_getSeatMap e tbl rd
       else if action rd = ''reserveSeats'' then handle_reserveSeats e tbl rd
       else (createResponse 400 (ErrorBody ''Invalid action specified''), tbl))"
  by (simp add: handler_def)

text \<open>
  C3, as the code has it. A \<open>getSeatMap\<close> request, or a \<open>reserveSeats\<close> request that
  passes the checks made before the flight is read, naming a flight the table does not
  hold, is answered with status 500: the thrown \<open>Error('Flight not found')\<close> reaches
  the handler's catch-all, which reports every error as an internal error with the
  message as details. No response of the handler has status 404.
\<close>

theorem unknown_flight_is_internal_error:
  assumes "tbl fid = None" and "fid \<noteq> []" and "get_fault e = None"
    and "httpMethod ev = ''POST''" and "body ev = RequestData rd" and "req_flightId rd = fid"
    and "action rd = ''getSeatMap'' \<or>
         action rd = ''reserveSeats'' \<and> req_seats rd = SeatArray seats
           \<and> req_passengers rd = Some passengers
           \<and> validateSeatSelection (SeatArray seats) passengers"
  shows "handler e tbl ev = (createResponse 500 (InternalError (Error ''Flight not found'')), tbl)
    \<and> classify (statusCode (fst (handler e tbl ev))) = Internal"
proof -
  have "handler e tbl ev = (createResponse 500 (InternalError (Error ''Flight not found'')), tbl)"
    using assms(7)
  proof
    assume "action rd = ''getSeatMap''"
    with assms(1-6) show ?thesis
      by (simp add: handler_post handle_getSeatMap_def getSeatMap_unknown)
  next
    assume "action rd = ''reserveSeats'' \<and> req_seats rd = SeatArray seats
           \<and> req_passengers rd = Some passengers
           \<and> validateSeatSelection (SeatArray seats) passengers"
    with assms(1-6) show ?thesis
      by (simp add: handler_post handle_reserveSeats_def getFlight_unknown)
  qed
  then show ?thesis
    by (simp add: createResponse_def classify_def)
qed

theorem unknown_flight_is_internal_error_witness:
  "handler env_quiet table_AB123 (post (getSeatMap_data ''ZZ999'')) =
     (createResponse 500 (InternalError (Error ''Flight not found'')), table_AB123)
   \<and> handler env_quiet table_AB123 (post (reserveSeats_data ''ZZ999'' [''1A''] [born 1990 0 15])) =
     (createResponse 500 (InternalError (Error ''Flight not found'')), table_AB123)"
proof -
  have sel: "validateSeatSelection (SeatArray [''1A'']) [born 1990 0 15]"
    by (simp add: validateSeatSelection_def seatPattern_test_def)
  have none: "table_AB123 ''ZZ999'' = None"
    by (simp add: table_AB123_def)
  have a: "handler env_quiet table_AB123 (post (getSeatMap_data ''ZZ999'')) =
     (createResponse 500 (InternalError (Error ''Flight not found'')), table_AB123)"
    using unknown_flight_is_internal_error [of table_AB123 "''ZZ999''" env_quiet
        "post (getSeatMap_data ''ZZ999'')" "getSeatMap_data ''ZZ999''" "[]" "[]"] none
    by (simp add: post_def getSeatMap_data_def env_quiet_def)
  have b: "handler env_quiet table_AB123 (post (reserveSeats_data ''ZZ999'' [''1A''] [born 1990 0 15])) =
     (createResponse 500 (InternalError (Error ''Flight not found'')), table_AB123)"
    using unknown_flight_is_internal_error [of table_AB123 "''ZZ999''" env_quiet
        "post (reserveSeats_data ''ZZ999'' [''1A''] [born 1990 0 15])"
        "reserveSeats_data ''ZZ999'' [''1A''] [born 1990 0 15]" "[''1A'']" "[born 1990 0 15]"]
      none sel
    by (simp add: post_def reserveSeats_data_def env_quiet_def)
  from a b show ?thesis ..
qed

theorem unknown_flight_not_classified_not_found:
  "classify (statusCode (fst (handler env_quiet table_AB123 (post (getSeatMap_data ''ZZ999'')))))
     \<noteq> NotFound"
  by (simp add: handler_def post_def getSeatMap_data_def handle_getSeatMap_def getSeatMap_def
        send_GetCommand_def env_quiet_def table_AB123_def createResponse_def classify_def)

lemma parseInt_1A: "parseInt ''1A'' = Fin 1"
  using fl_of_int [of 1]
  by (simp add: parseInt_def is_white_space_def digit_value_def digits_value_def)

lemma parseInt_40A: "parseInt ''40A'' = Fin 40"
  using fl_of_int [of 40]
  by (simp add: parseInt_def is_white_space_def digit_value_def digits_value_def)

lemma parseInt_14C: "parseInt ''14C'' = Fin 14"
  using fl_of_int [of 14]
  by (simp add: parseInt_def is_white_space_def digit_value_def digits_value_def)

text \<open>The request used in the examples: seat 1A of flight AB123 for one adult.\<close>

lemma example_request_valid:
  "validateSeatSelection (SeatArray [''1A'']) [born 1990 0 15]"
  "validateSeatAvailability [''1A''] flight_AB123"
  "validateEmergencyExitRows (today env_quiet) [''1A''] [born 1990 0 15] flight_AB123 = Inr True"
  by (simp_all add: validateSeatSelection_def seatPattern_test_def validateSeatAvailability_def
        validateEmergencyExitRows_def parseInt_1A flight_AB123_def)

text \<open>
  C2, as the code has it. When the flight read by the request is gone at commit time,
  the conditional write fails, \<open>reserveSeats\<close> throws
  \<open>Error('Concurrent seat reservation detected')\<close>, and the handler answers with
  status 500, the internal error classification, with that message as details.
\<close>

theorem vanished_flight_is_internal_error:
  assumes "get_fault e = None" and "update_fault e = None"
    and "tbl fid = Some flight" and "interference e tbl fid = None" and "fid \<noteq> []"
    and "httpMethod ev = ''POST''" and "body ev = RequestData rd"
    and "action rd = ''reserveSeats''" and "req_flightId rd = fid"
    and "req_seats rd = SeatArray seats" and "req_passengers rd = Some passengers"
    and "validateSeatSelection (SeatArray seats) passengers"
    and "validateSeatAvailability seats flight"
    and "validateEmergencyExitRows (today e) seats passengers flight = Inr True"
  shows "reserveSeats e (interference e tbl) fid seats =
      Inl (Error ''Concurrent seat reservation detected'')
    \<and> handler e tbl ev =
      (createResponse 500 (InternalError (Error ''Concurrent seat reservation detected'')),
       interference e tbl)
    \<and> classify (statusCode (fst (handler e tbl ev))) = Internal"
proof -
  have r: "reserveSeats e (interference e tbl) fid seats =
      Inl (Error ''Concurrent seat reservation detected'')"
    using assms(2,4) by (rule reserveSeats_vanished)
  have h: "handler e tbl ev =
      (createResponse 500 (InternalError (Error ''Concurrent seat reservation detected'')),
       interference e tbl)"
    using assms r
    by (simp add: handler_post handle_reserveSeats_def getFlight_known)
  from r h show ?thesis
    by (simp add: createResponse_def classify_def)
qed

theorem vanished_flight_is_internal_error_witness:
  "handler env_vanish table_AB123 (post (reserveSeats_data ''AB123'' [''1A''] [born 1990 0 15])) =
     (createResponse 500 (InternalError (Error ''Concurrent seat reservation detected'')),
      Map.empty)"
proof -
  have i: "interference env_vanish table_AB123 = Map.empty"
    by (simp add: env_vanish_def table_AB123_def)
  have t: "today env_vanish = today env_quiet"
    by (simp add: env_vanish_def)
  from vanished_flight_is_internal_error [of env_vanish table_AB123 "''AB123''" flight_AB123
      "post (reserveSeats_data ''AB123'' [''1A''] [born 1990 0 15])"
      "reserveSeats_data ''AB123'' [''1A''] [born 1990 0 15]" "[''1A'']" "[born 1990 0 15]"]
    example_request_valid
  show ?thesis
    by (simp add: i t post_def reserveSeats_data_def env_vanish_def env_quiet_def table_AB123_def)
qed

lemma vanished_example:
  "handler env_vanish table_AB123 (post (reserveSeats_data ''AB123'' [''1A''] [born 1990 0 15])) =
     (createResponse 500 (InternalError (Error ''Concurrent seat reservation detected'')),
      Map.empty)"
proof -
  have t: "today env_vanish = today env_quiet"
    by (simp add: env_vanish_def)
  have g: "getFlight env_vanish table_AB123 ''AB123'' = Inr flight_AB123"
    by (simp add: getFlight_known env_vanish_def env_quiet_def table_AB123_def)
  have r: "reserveSeats env_vanish (interference env_vanish table_AB123) ''AB123'' [''1A''] =
      Inl (Error ''Concurrent seat reservation detected'')"
    by (simp add: reserveSeats_vanished env_vanish_def env_quiet_def table_AB123_def)
  have i: "interference env_vanish table_AB123 = Map.empty"
    by (simp add: env_vanish_def table_AB123_def)
  show ?thesis
    using example_request_valid g r
    by (simp add: handler_post handle_reserveSeats_def post_def reserveSeats_data_def t i)
qed

theorem vanished_flight_not_classified_not_found:
  "classify (statusCode (fst (handler env_vanish table_AB123
      (post (reserveSeats_data ''AB123'' [''1A''] [born 1990 0 15]))))) \<noteq> NotFound"
  by (simp add: vanished_example createResponse_def classify_def)

section \<open>The commit\<close>

text \<open>
  C7. A successful \<open>reserveSeats\<close> changes the table at the flight's key only, and the
  flight record only by appending the selected seat ids to the end of \<open>occupiedSeats\<close>:
  the old list is a prefix of the new one, and every other attribute, among them
  \<open>availableSeats\<close>, is as before.
\<close>

theorem reserveSeats_appends_only:
  assumes "reserveSeats e tbl fid seats = Inr tbl'"
  shows "\<exists>flight flight'.
      tbl fid = Some flight \<and> tbl' fid = Some flight'
    \<and> occupiedSeats flight' = occupiedSeats flight @ seats
    \<and> flight' = flight\<lparr>occupiedSeats := occupiedSeats flight @ seats\<rparr>
    \<and> flightId flight' = flightId flight
    \<and> departureTime flight' = departureTime flight
    \<and> totalSeats flight' = totalSeats flight
    \<and> availableSeats flight' = availableSeats flight
    \<and> basePrice flight' = basePrice flight
    \<and> emergencyExitRows flight' = emergencyExitRows flight
    \<and> premiumSeats flight' = premiumSeats flight
    \<and> premiumSeatCost flight' = premiumSeatCost flight
    \<and> (\<forall>k. k \<noteq> fid \<longrightarrow> tbl' k = tbl k)"
proof (cases "tbl fid")
  case None
  with assms show ?thesis
    by (simp add: reserveSeats_def send_UpdateCommand_def split: option.splits if_splits)
next
  case (Some flight)
  with assms have "tbl' = tbl(fid \<mapsto> flight\<lparr>occupiedSeats := occupiedSeats flight @ seats\<rparr>)"
    by (simp add: reserveSeats_def send_UpdateCommand_def split: option.splits if_splits)
  with Some show ?thesis
    by simp
qed

theorem reserveSeats_appends_only_witness:
  "\<exists>flight flight'.
      table_AB123 ''AB123'' = Some flight
    \<and> (table_AB123(''AB123'' \<mapsto> flight_AB123\<lparr>occupiedSeats := [''12C'', ''12D'']\<rparr>)) ''AB123''
        = Some flight'
    \<and> occupiedSeats flight' = occupiedSeats flight @ [''12C'', ''12D'']
    \<and> availableSeats flight' = availableSeats flight"
proof -
  have "reserveSeats env_quiet table_AB123 ''AB123'' [''12C'', ''12D''] =
      Inr (table_AB123(''AB123'' \<mapsto> flight_AB123\<lparr>occupiedSeats := [''12C'', ''12D'']\<rparr>))"
    by (simp add: reserveSeats_def send_UpdateCommand_def env_quiet_def table_AB123_def
          flight_AB123_def)
  from reserveSeats_appends_only [OF this] show ?thesis
    by blast
qed

text \<open>
  C8. A commit is one atomic conditional update of the store, so two concurrent commits
  on the same existing flight take effect one after the other, in either order. In both
  orders both succeed, and the resulting \<open>occupiedSeats\<close> is the old list followed by
  the seats of the two calls: no seat of either call is lost.
\<close>

theorem two_commits_lose_nothing:
  assumes "tbl fid = Some flight" and "update_fault e1 = None" and "update_fault e2 = None"
  shows "\<exists>t1 t2 f12 t1' t2' f21.
      reserveSeats e1 tbl fid seats1 = Inr t1 \<and> reserveSeats e2 t1 fid seats2 = Inr t2
    \<and> t2 fid = Some f12 \<and> occupiedSeats f12 = occupiedSeats flight @ seats1 @ seats2
    \<and> reserveSeats e2 tbl fid seats2 = Inr t1' \<and> reserveSeats e1 t1' fid seats1 = Inr t2'
    \<and> t2' fid = Some f21 \<and> occupiedSeats f21 = occupiedSeats flight @ seats2 @ seats1
    \<and> set seats1 \<union> set seats2 \<subseteq> set (occupiedSeats f12)
    \<and> set seats1 \<union> set seats2 \<subseteq> set (occupiedSeats f21)"
  using assms by (auto simp: reserveSeats_commit)

theorem two_commits_lose_nothing_witness:
  "\<exists>t1 t2 f12.
      reserveSeats env_quiet table_AB123 ''AB123'' [''3A''] = Inr t1
    \<and> reserveSeats env_quiet t1 ''AB123'' [''7F'', ''8F''] = Inr t2
    \<and> t2 ''AB123'' = Some f12 \<and> occupiedSeats f12 = [''3A'', ''7F'', ''8F'']"
proof -
  have "table_AB123 ''AB123'' = Some flight_AB123" and "update_fault env_quiet = None"
    by (simp_all add: table_AB123_def env_quiet_def)
  with two_commits_lose_nothing [of table_AB123 "''AB123''" flight_AB123 env_quiet env_quiet
      "[''3A'']" "[''7F'', ''8F'']"]
  show ?thesis
    by (auto simp: flight_AB123_def)
qed

section \<open>Seats the validators accept\<close>

lemma handler_reserve_commit:
  assumes "get_fault e = None" and "update_fault e = None"
    and "tbl fid = Some flight" and "interference e tbl fid = Some flight2" and "fid \<noteq> []"
    and "validateSeatSelection (SeatArray seats) passengers"
    and "validateSeatAvailability seats flight"
    and "validateEmergencyExitRows (today e) seats passengers flight = Inr True"
  shows "handler e tbl (post (reserveSeats_data fid seats passengers)) =
      (createResponse 200 (ReservedBody seats (calculateSeatCost seats flight)),
       (interference e tbl)(fid \<mapsto> flight2\<lparr>occupiedSeats := occupiedSeats flight2 @ seats\<rparr>))"
proof -
  have "reserveSeats e (interference e tbl) fid seats =
      Inr ((interference e tbl)(fid \<mapsto> flight2\<lparr>occupiedSeats := occupiedSeats flight2 @ seats\<rparr>))"
    using assms(2,4) by (rule reserveSeats_commit)
  with assms show ?thesis
    by (simp add: handler_post post_def reserveSeats_data_def handle_reserveSeats_def
          getFlight_known)
qed

lemma seat_ids_of_map:
  "set (map seat_id (generateSeatMap g)) = (\<lambda>k. seatId (1 + k div 6) (k mod 6)) ` {0..<180}"
  by (simp add: generateSeatMap_index makeSeat_def image_image del: upt_Suc)

lemma string_of_nat_40: "string_of_nat 40 = ''40''"
  by (simp add: string_of_nat.simps char_of_def bit_0)

lemma seat_40A_not_generated: "''40A'' \<notin> set (map seat_id (generateSeatMap g))"
proof
  assume "''40A'' \<in> set (map seat_id (generateSeatMap g))"
  then obtain k where k: "k < 180" and eq: "''40A'' = seatId (1 + k div 6) (k mod 6)"
    unfolding seat_ids_of_map by auto
  from eq have "string_of_nat (1 + k div 6) = string_of_nat 40"
    by (simp add: seatId_def string_of_nat_40 Cons_eq_append_conv append_eq_Cons_conv
          string_of_nat_nonempty)
  then have "1 + k div 6 = 40"
    by (rule string_of_nat_inj)
  with k show False
    by simp
qed

text \<open>
  C9. The seat pattern accepts rows up to 99, the seat map has rows 1 to 30. On a flight
  where 40A is not occupied and row 40 is not an emergency exit row, the selection
  \<open>["40A"]\<close> with at least one passenger passes all validators, the request is answered
  with status 200 and the store gets 40A appended to \<open>occupiedSeats\<close>; yet no seat map
  of any flight has a seat with id 40A.
\<close>

theorem seat_40A_is_reserved_but_on_no_seat_map:
  assumes "''40A'' \<notin> set (occupiedSeats flight)" and "Fin 40 \<notin> set (emergencyExitRows flight)"
    and "passengers \<noteq> []"
    and "get_fault e = None" and "update_fault e = None" and "interference e tbl = tbl"
    and "tbl fid = Some flight" and "fid \<noteq> []"
  shows "seatPattern_test ''40A''
    \<and> validateSeatSelection (SeatArray [''40A'']) passengers
    \<and> validateSeatAvailability [''40A''] flight
    \<and> validateEmergencyExitRows (today e) [''40A''] passengers flight = Inr True
    \<and> handler e tbl (post (reserveSeats_data fid [''40A''] passengers)) =
        (createResponse 200 (ReservedBody [''40A''] (calculateSeatCost [''40A''] flight)),
         tbl(fid \<mapsto> flight\<lparr>occupiedSeats := occupiedSeats flight @ [''40A'']\<rparr>))
    \<and> (\<forall>g. ''40A'' \<notin> set (map seat_id (generateSeatMap g)))"
proof -
  have p: "seatPattern_test ''40A''"
    by (simp add: seatPattern_test_def)
  from assms(3) have s: "validateSeatSelection (SeatArray [''40A'']) passengers"
    by (cases passengers) (simp_all add: validateSeatSelection_def p)
  from assms(1) have a: "validateSeatAvailability [''40A''] flight"
    by (simp add: validateSeatAvailability_def)
  from assms(2) have x: "validateEmergencyExitRows (today e) [''40A''] passengers flight = Inr True"
    by (simp add: validateEmergencyExitRows_def parseInt_40A)
  from assms(6,7) have i: "interference e tbl fid = Some flight"
    by simp
  have h: "handler e tbl (post (reserveSeats_data fid [''40A''] passengers)) =
        (createResponse 200 (ReservedBody [''40A''] (calculateSeatCost [''40A''] flight)),
         tbl(fid \<mapsto> flight\<lparr>occupiedSeats := occupiedSeats flight @ [''40A'']\<rparr>))"
    using handler_reserve_commit [OF assms(4,5,7) i assms(8) s a x] by (simp add: assms(6))
  from p s a x h seat_40A_not_generated show ?thesis
    by blast
qed

theorem seat_40A_is_reserved_but_on_no_seat_map_witness:
  "handler env_quiet table_AB123 (post (reserveSeats_data ''AB123'' [''40A''] [born 1990 0 15])) =
     (createResponse 200 (ReservedBody [''40A''] (Fin 0)),
      table_AB123(''AB123'' \<mapsto> flight_AB123\<lparr>occupiedSeats := [''40A'']\<rparr>))
   \<and> ''40A'' \<notin> set (map seat_id (generateSeatMap flight_AB123))"
proof -
  have "''40A'' \<notin> set (occupiedSeats flight_AB123)"
    and "Fin 40 \<notin> set (emergencyExitRows flight_AB123)"
    and "[born 1990 0 15] \<noteq> []"
    and "get_fault env_quiet = None" and "update_fault env_quiet = None"
    and "interference env_quiet table_AB123 = table_AB123"
    and "table_AB123 ''AB123'' = Some flight_AB123" and "''AB123'' \<noteq> []"
    by (simp_all add: flight_AB123_def env_quiet_def table_AB123_def)
  from seat_40A_is_reserved_but_on_no_seat_map [OF this] show ?thesis
    by (simp add: calculateSeatCost_def flight_AB123_def)
qed

text \<open>
  C10. No validator compares the seats of one selection with each other. A selection
  holding the same well-formed, unoccupied seat id twice, with at least two passengers
  (both eligible if the seat is in an emergency exit row), passes all validators; the
  request is answered with status 200, the id is appended to \<open>occupiedSeats\<close> twice,
  and a premium seat's cost is added to \<open>additionalCost\<close> twice.
\<close>

theorem duplicate_seat_is_reserved_twice:
  assumes "seatPattern_test s" and "s \<notin> set (occupiedSeats flight)"
    and "2 \<le> length passengers"
    and "parseInt s \<in> set (emergencyExitRows flight) \<longrightarrow>
           isEligibleForEmergencyRow (today e) (passengers ! 0)
         \<and> isEligibleForEmergencyRow (today e) (passengers ! 1)"
    and "get_fault e = None" and "update_fault e = None" and "interference e tbl = tbl"
    and "tbl fid = Some flight" and "fid \<noteq> []"
  shows "validateSeatSelection (SeatArray [s, s]) passengers
    \<and> validateSeatAvailability [s, s] flight
    \<and> validateEmergencyExitRows (today e) [s, s] passengers flight = Inr True
    \<and> handler e tbl (post (reserveSeats_data fid [s, s] passengers)) =
        (createResponse 200 (ReservedBody [s, s] (calculateSeatCost [s, s] flight)),
         tbl(fid \<mapsto> flight\<lparr>occupiedSeats := occupiedSeats flight @ [s, s]\<rparr>))
    \<and> calculateSeatCost [s, s] flight =
        (if s \<in> set (premiumSeats flight)
         then js_add (js_add (Fin 0) (premiumSeatCost flight)) (premiumSeatCost flight)
         else Fin 0)"
proof -
  from assms(1,3) have v: "validateSeatSelection (SeatArray [s, s]) passengers"
    by (simp add: validateSeatSelection_def)
  from assms(2) have a: "validateSeatAvailability [s, s] flight"
    by (simp add: validateSeatAvailability_def)
  from assms(3) have l0: "0 < length passengers"
    by linarith
  from assms(3) have l1: "Suc 0 < length passengers"
    by linarith
  from assms(4) l0 l1 have x: "validateEmergencyExitRows (today e) [s, s] passengers flight = Inr True"
    by (simp add: validateEmergencyExitRows_def)
  from assms(7,8) have i: "interference e tbl fid = Some flight"
    by simp
  have h: "handler e tbl (post (reserveSeats_data fid [s, s] passengers)) =
        (createResponse 200 (ReservedBody [s, s] (calculateSeatCost [s, s] flight)),
         tbl(fid \<mapsto> flight\<lparr>occupiedSeats := occupiedSeats flight @ [s, s]\<rparr>))"
    using handler_reserve_commit [OF assms(5,6,8) i assms(9) v a x] by (simp add: assms(7))
  have c: "calculateSeatCost [s, s] flight =
        (if s \<in> set (premiumSeats flight)
         then js_add (js_add (Fin 0) (premiumSeatCost flight)) (premiumSeatCost flight)
         else Fin 0)"
    by (simp add: calculateSeatCost_def)
  from v a x h c show ?thesis
    by blast
qed

lemma js_add_small:
  "\<bar>a + b\<bar> < 2 ^ 53 \<Longrightarrow> js_add (Fin (of_int a)) (Fin (of_int b)) = Fin (of_int (a + b))"
  using fl_of_int [of "a + b"] by (simp add: js_add_def)

theorem duplicate_seat_is_reserved_twice_witness:
  "handler env_quiet table_AB123
     (post (reserveSeats_data ''AB123'' [''1A'', ''1A''] [born 1990 0 15, born 1985 3 2])) =
     (createResponse 200 (ReservedBody [''1A'', ''1A''] (Fin 50)),
      table_AB123(''AB123'' \<mapsto> flight_AB123\<lparr>occupiedSeats := [''1A'', ''1A'']\<rparr>))"
proof -
  have "seatPattern_test ''1A''" and "''1A'' \<notin> set (occupiedSeats flight_AB123)"
    and "2 \<le> length [born 1990 0 15, born 1985 3 2]"
    and "parseInt ''1A'' \<in> set (emergencyExitRows flight_AB123) \<longrightarrow>
           isEligibleForEmergencyRow (today env_quiet) ([born 1990 0 15, born 1985 3 2] ! 0)
         \<and> isEligibleForEmergencyRow (today env_quiet) ([born 1990 0 15, born 1985 3 2] ! 1)"
    and "get_fault env_quiet = None" and "update_fault env_quiet = None"
    and "interference env_quiet table_AB123 = table_AB123"
    and "table_AB123 ''AB123'' = Some flight_AB123" and "''AB123'' \<noteq> []"
    by (simp_all add: seatPattern_test_def flight_AB123_def env_quiet_def table_AB123_def
          parseInt_1A)
  from duplicate_seat_is_reserved_twice [OF this]
  have h: "handler env_quiet table_AB123
     (post (reserveSeats_data ''AB123'' [''1A'', ''1A''] [born 1990 0 15, born 1985 3 2])) =
        (createResponse 200
          (ReservedBody [''1A'', ''1A''] (calculateSeatCost [''1A'', ''1A''] flight_AB123)),
         table_AB123(''AB123'' \<mapsto>
           flight_AB123\<lparr>occupiedSeats := occupiedSeats flight_AB123 @ [''1A'', ''1A'']\<rparr>))"
    and c: "calculateSeatCost [''1A'', ''1A''] flight_AB123 =
        (if ''1A'' \<in> set (premiumSeats flight_AB123)
         then js_add (js_add (Fin 0) (premiumSeatCost flight_AB123)) (premiumSeatCost flight_AB123)
         else Fin 0)"
    by blast+
  have "js_add (js_add (Fin 0) (Fin 25)) (Fin 25) = Fin 50"
    using js_add_small [of 0 25] js_add_small [of 25 25] by simp
  with c have "calculateSeatCost [''1A'', ''1A''] flight_AB123 = Fin 50"
    by (simp add: flight_AB123_def)
  with h show ?thesis
    by (simp add: flight_AB123_def)
qed

section \<open>Emergency exit rows\<close>

lemma calculateAge_whole_years:
  "calculateAge now dob = Some a \<longleftrightarrow> whole_years now dob a"
proof (cases now)
  case (CalendarDate ty tm td)
  show ?thesis
  proof (cases dob)
    case dob: (CalendarDate y m d)
    show ?thesis
      unfolding CalendarDate dob calculateAge_def whole_years_def on_or_before_def Let_def
      by (simp split: if_splits) linarith
  next
    case InvalidDate
    then show ?thesis
      by (simp add: calculateAge_def whole_years_def CalendarDate)
  qed
next
  case InvalidDate
  then show ?thesis
    by (simp add: calculateAge_def whole_years_def)
qed

lemma isEligibleForEmergencyRow_iff:
  "isEligibleForEmergencyRow now p \<longleftrightarrow>
     (\<exists>age. whole_years now (dateOfBirth p) age \<and> 15 \<le> age \<and> age \<le> 75)"
proof (cases "calculateAge now (dateOfBirth p)")
  case None
  then have "\<not> whole_years now (dateOfBirth p) a" for a
    by (simp flip: calculateAge_whole_years)
  with None show ?thesis
    by (simp add: isEligibleForEmergencyRow_def)
next
  case (Some a)
  then have "whole_years now (dateOfBirth p) b \<longleftrightarrow> b = a" for b
    by (auto simp flip: calculateAge_whole_years)
  with Some show ?thesis
    by (simp add: isEligibleForEmergencyRow_def)
qed

lemma every_seat_eq:
  "index + length seats \<le> length passengers \<Longrightarrow>
    every_seat now passengers flight index seats =
      Inr (\<forall>i<length seats. parseInt (seats ! i) \<in> set (emergencyExitRows flight) \<longrightarrow>
             isEligibleForEmergencyRow now (passengers ! (index + i)))"
proof (induction seats arbitrary: index)
  case Nil
  show ?case by simp
next
  case (Cons seat rest)
  from Cons.prems have le: "Suc index + length rest \<le> length passengers"
    and lt: "index < length passengers"
    by simp_all
  show ?case
    using lt Cons.IH [OF le] by (auto simp: All_less_Suc2)
qed


text \<open>
  C4. When the selection is not longer than the passenger list, the emergency exit check
  succeeds exactly if, for each selected seat at position \<open>i\<close> whose row is an
  emergency exit row, the passenger at position \<open>i\<close> has an age in whole years between
  15 and 75, both included. A passenger aged exactly 14 or exactly 76 is not eligible,
  one aged exactly 15 or exactly 75 is.
\<close>

theorem emergency_row_needs_age_15_to_75:
  assumes "length seats \<le> length passengers"
  shows "validateEmergencyExitRows now seats passengers flight =
      Inr (\<forall>i<length seats. parseInt (seats ! i) \<in> set (emergencyExitRows flight) \<longrightarrow>
             (\<exists>age. whole_years now (dateOfBirth (passengers ! i)) age \<and> 15 \<le> age \<and> age \<le> 75))
    \<and> (whole_years now (dateOfBirth p) 14 \<longrightarrow> \<not> isEligibleForEmergencyRow now p)
    \<and> (whole_years now (dateOfBirth p) 15 \<longrightarrow> isEligibleForEmergencyRow now p)
    \<and> (whole_years now (dateOfBirth p) 75 \<longrightarrow> isEligibleForEmergencyRow now p)
    \<and> (whole_years now (dateOfBirth p) 76 \<longrightarrow> \<not> isEligibleForEmergencyRow now p)"
proof -
  have v: "validateEmergencyExitRows now seats passengers flight =
      Inr (\<forall>i<length seats. parseInt (seats ! i) \<in> set (emergencyExitRows flight) \<longrightarrow>
             (\<exists>age. whole_years now (dateOfBirth (passengers ! i)) age \<and> 15 \<le> age \<and> age \<le> 75))"
    using every_seat_eq [of 0 seats passengers now flight] assms
    by (simp add: validateEmergencyExitRows_def isEligibleForEmergencyRow_iff)
  have e: "isEligibleForEmergencyRow now p \<longleftrightarrow> 15 \<le> a \<and> a \<le> 75"
    if "whole_years now (dateOfBirth p) a" for a
    using that by (simp add: isEligibleForEmergencyRow_def flip: calculateAge_whole_years)
  from v e [of 14] e [of 15] e [of 75] e [of 76] show ?thesis
    by simp
qed

theorem emergency_row_needs_age_15_to_75_witness:
  "validateEmergencyExitRows (CalendarDate 2025 5 14) [''14C''] [born 2010 5 15] flight_AB123
     = Inr False
   \<and> validateEmergencyExitRows (CalendarDate 2025 5 14) [''14C''] [born 2010 5 14] flight_AB123
     = Inr True
   \<and> validateEmergencyExitRows (CalendarDate 2025 5 14) [''14C''] [born 1950 5 14] flight_AB123
     = Inr True
   \<and> validateEmergencyExitRows (CalendarDate 2025 5 14) [''14C''] [born 1949 5 14] flight_AB123
     = Inr False"
proof -
  have w: "whole_years (CalendarDate 2025 5 14) (CalendarDate y 5 d) a \<longleftrightarrow>
      (if d \<le> 14 then a = 2025 - y else a = 2024 - y)" for y d a
    by (auto simp: whole_years_def on_or_before_def)
  have r: "parseInt ''14C'' \<in> set (emergencyExitRows flight_AB123)"
    by (simp add: parseInt_14C flight_AB123_def)
  have l: "length [''14C''] \<le> length [born y m d]" for y m d
    by simp
  note t = emergency_row_needs_age_15_to_75 [OF l, of "CalendarDate 2025 5 14" _ _ _ flight_AB123]
  from t [of 2010 5 15] t [of 2010 5 14] t [of 1950 5 14] t [of 1949 5 14] r show ?thesis
    by (simp add: born_def w)
qed

section \<open>Dynamic pricing\<close>

text \<open>The literals of \<open>applyDynamicPricing\<close> as binary64 values.\<close>

lemmas fl_eval_simps = pow2_def round_half_even_def Let_def floor_rat_numeral

lemma lit_1_3: "js_lit (13 / 10) = Fin (5854679515581645 / 4503599627370496)"
  using fl_eval [of "13 / 10" 0 5854679515581645] by (simp add: js_lit_def fl_eval_simps)

lemma lit_1_2: "js_lit (12 / 10) = Fin (5404319552844595 / 4503599627370496)"
  using fl_eval [of "12 / 10" 0 5404319552844595] by (simp add: js_lit_def fl_eval_simps)

lemma lit_1_1: "js_lit (11 / 10) = Fin (2476979795053773 / 2251799813685248)"
  using fl_eval [of "11 / 10" 0 4953959590107546] by (simp add: js_lit_def fl_eval_simps)

lemma lit_1_4: "js_lit (14 / 10) = Fin (3152519739159347 / 2251799813685248)"
  using fl_eval [of "14 / 10" 0 6305039478318694] by (simp add: js_lit_def fl_eval_simps)

lemma lit_0_8: "js_lit (8 / 10) = Fin (3602879701896397 / 4503599627370496)"
  using fl_eval [of "8 / 10" "- 1" 7205759403792794] by (simp add: js_lit_def fl_eval_simps)

lemma lit_0_6: "js_lit (6 / 10) = Fin (5404319552844595 / 9007199254740992)"
  using fl_eval [of "6 / 10" "- 1" 5404319552844595] by (simp add: js_lit_def fl_eval_simps)

lemma fl_numeral: "numeral n < (2::int) ^ 53 \<Longrightarrow> fl (numeral n) = Fin (numeral n)"
  using fl_of_int [of "numeral n"] by simp

lemma ms_per_day:
  "js_mul (js_mul (js_mul (Fin 1000) (Fin 60)) (Fin 60)) (Fin 24) = Fin 86400000"
  by (simp add: js_mul_def fl_numeral)

lemma fl_1_3: "fl (5854679515581645 / 4503599627370496) = Fin (5854679515581645 / 4503599627370496)"
  using fl_eval [of "5854679515581645 / 4503599627370496" 0 5854679515581645]
  by (simp add: fl_eval_simps)

lemma fl_1_2: "fl (5404319552844595 / 4503599627370496) = Fin (5404319552844595 / 4503599627370496)"
  using fl_eval [of "5404319552844595 / 4503599627370496" 0 5404319552844595]
  by (simp add: fl_eval_simps)

lemma fl_1_1: "fl (2476979795053773 / 2251799813685248) = Fin (2476979795053773 / 2251799813685248)"
  using fl_eval [of "2476979795053773 / 2251799813685248" 0 4953959590107546]
  by (simp add: fl_eval_simps)

lemma fl_1_4: "fl (3152519739159347 / 2251799813685248) = Fin (3152519739159347 / 2251799813685248)"
  using fl_eval [of "3152519739159347 / 2251799813685248" 0 6305039478318694]
  by (simp add: fl_eval_simps)

lemma fl_1: "fl 1 = Fin 1"
  using fl_of_int [of 1] by simp

lemmas literals = lit_1_3 lit_1_2 lit_1_1 lit_1_4 lit_0_8 lit_0_6

lemma one_mul_literal:
  "js_mul (Fin 1) (js_lit (13 / 10)) = js_lit (13 / 10)"
  "js_mul (Fin 1) (js_lit (12 / 10)) = js_lit (12 / 10)"
  "js_mul (Fin 1) (js_lit (11 / 10)) = js_lit (11 / 10)"
  "js_mul (Fin 1) (js_lit (14 / 10)) = js_lit (14 / 10)"
  unfolding literals by (simp_all add: js_mul_def fl_1_3 fl_1_2 fl_1_1 fl_1_4)

lemma literal_mul_one:
  "js_mul (js_lit (13 / 10)) (Fin 1) = js_lit (13 / 10)"
  "js_mul (js_lit (12 / 10)) (Fin 1) = js_lit (12 / 10)"
  "js_mul (js_lit (11 / 10)) (Fin 1) = js_lit (11 / 10)"
  "js_mul (Fin 1) (Fin 1) = Fin 1"
  unfolding literals by (simp_all add: js_mul_def fl_1_3 fl_1_2 fl_1_1 fl_1)

lemma timeFactor_mul_one: "js_mul (timeFactor days) (Fin 1) = timeFactor days"
  unfolding timeFactor_def by (simp only: literal_mul_one if_distrib [of "\<lambda>x. js_mul x (Fin 1)"] cong: if_cong)

lemma time_step:
  "(if js_le days (Fin 7) then js_mul (Fin 1) (js_lit (13 / 10))
    else if js_le days (Fin 14) then js_mul (Fin 1) (js_lit (12 / 10))
    else if js_le days (Fin 30) then js_mul (Fin 1) (js_lit (11 / 10))
    else Fin 1) = timeFactor days"
  by (simp only: timeFactor_def one_mul_literal)

lemma occupancy_step:
  "(if js_gt occ (js_lit (8 / 10)) then js_mul (timeFactor days) (js_lit (14 / 10))
    else if js_gt occ (js_lit (6 / 10)) then js_mul (timeFactor days) (js_lit (12 / 10))
    else timeFactor days) = js_mul (timeFactor days) (occupancyFactor occ)"
  unfolding occupancyFactor_def
  by (simp only: timeFactor_mul_one if_distrib [of "js_mul (timeFactor days)"] cong: if_cong)

lemma dynamicPrice_eq_fare:
  "dynamicPrice now flight = fare now flight"
  unfolding dynamicPrice_def Let_def ms_per_day time_step occupancy_step
  by (simp only: fare_def round2_def daysToDeparture_def occupancy_def)

lemma fl_one_eighteenth: "fl (1 / 18) = Fin (2001599834386887 / 36028797018963968)"
  using fl_eval [of "1 / 18" "- 5" 8006399337547548] by (simp add: fl_eval_simps)

lemma fl_200_times_1_3: "fl (200 * (5854679515581645 / 4503599627370496)) = Fin 260"
  using fl_eval [of "200 * (5854679515581645 / 4503599627370496)" 8 4573968371548160]
  by (simp add: fl_eval_simps)

lemma days_example:
  "daysToDeparture (Fin t) (flight\<lparr>departureTime := Fin (t + 432000000)\<rparr>) = Fin 5"
  by (simp add: daysToDeparture_def js_sub_def js_neg_def js_add_def js_div_def Math_ceil_def
        fl_numeral)

lemma timeFactor_5: "timeFactor (Fin 5) = js_lit (13 / 10)"
  by (simp add: timeFactor_def js_le_def js_lt_def)

lemma occupancy_example:
  "totalSeats flight = Fin 180 \<Longrightarrow> availableSeats flight = Fin 170 \<Longrightarrow>
    occupancy flight = Fin (2001599834386887 / 36028797018963968)"
  by (simp add: occupancy_def js_sub_def js_neg_def js_add_def js_div_def fl_numeral
        fl_one_eighteenth)

lemma occupancyFactor_example:
  "occupancyFactor (Fin (2001599834386887 / 36028797018963968)) = Fin 1"
  unfolding occupancyFactor_def literals by (simp add: js_gt_def js_lt_def)

lemma round2_260: "round2 (Fin 260) = Fin 260"
  by (simp add: round2_def js_mul_def js_div_def Math_round_def fl_numeral floor_rat_numeral)

lemma fare_example:
  "fare (Fin t)
     (flight\<lparr>departureTime := Fin (t + 432000000), totalSeats := Fin 180,
             availableSeats := Fin 170, basePrice := Fin 200\<rparr>) = Fin 260"
proof -
  let ?f = "flight\<lparr>departureTime := Fin (t + 432000000), totalSeats := Fin 180,
             availableSeats := Fin 170, basePrice := Fin 200\<rparr>"
  have d: "daysToDeparture (Fin t) ?f = Fin 5"
    using days_example [of t "flight\<lparr>totalSeats := Fin 180,
             availableSeats := Fin 170, basePrice := Fin 200\<rparr>"]
    by (simp add: daysToDeparture_def)
  have o: "occupancy ?f = Fin (2001599834386887 / 36028797018963968)"
    by (rule occupancy_example) simp_all
  have m: "js_mul (Fin 200) (js_mul (js_lit (13 / 10)) (Fin 1)) = Fin 260"
    unfolding literal_mul_one unfolding literals
    using fl_200_times_1_3 by (simp add: js_mul_def)
  have b: "basePrice ?f = Fin 200"
    by simp
  show ?thesis
    unfolding fare_def d o timeFactor_5 occupancyFactor_example b m by (rule round2_260)
qed

text \<open>
  C5. The price computed for a flight is the base price times the stacked multiplier,
  time factor times occupancy factor, rounded to two decimal places with
  \<open>Math.round\<close>; \<open>applyDynamicPricing\<close> attaches it to every flight. For a flight with
  180 seats, 170 of them available, a base price of 200 and a departure 5 days
  (432000000 ms) ahead, the price is 260.
\<close>

theorem dynamic_pricing_formula:
  "dynamicPrice now flight =
     round2 (js_mul (basePrice flight)
               (js_mul (timeFactor (daysToDeparture now flight))
                       (occupancyFactor (occupancy flight))))
   \<and> applyDynamicPricing now flights = map (\<lambda>flight. (flight, fare now flight)) flights
   \<and> dynamicPrice (Fin t)
       (flight\<lparr>departureTime := Fin (t + 432000000), totalSeats := Fin 180,
               availableSeats := Fin 170, basePrice := Fin 200\<rparr>) = Fin 260"
  by (simp only: applyDynamicPricing_def dynamicPrice_eq_fare fare_example, simp add: fare_def)

section \<open>Further consequences\<close>

text \<open>The two extreme flights: with no seat taken every seat of the map is available,
  and once all 180 ids are among the occupied seats every seat is occupied.\<close>

lemma seat_map_none_occupied:
  "occupiedSeats flight = [] \<Longrightarrow> seat \<in> set (generateSeatMap flight) \<Longrightarrow>
    status seat = available"
  by (auto simp: generateSeatMap_index makeSeat_def simp del: upt_Suc)

lemma seat_map_all_occupied:
  assumes "set (map seat_id (generateSeatMap g)) \<subseteq> set (occupiedSeats flight)"
    and "seat \<in> set (generateSeatMap flight)"
  shows "status seat = occupied"
proof -
  from assms(2) obtain k where k: "k < 180"
    and seat: "seat = makeSeat flight (1 + k div 6) (k mod 6)"
    by (auto simp: generateSeatMap_index simp del: upt_Suc)
  from k have "seatId (1 + k div 6) (k mod 6) \<in> set (map seat_id (generateSeatMap g))"
    unfolding seat_ids_of_map by auto
  with assms(1) show ?thesis
    by (auto simp: seat makeSeat_def)
qed

text \<open>A request with an empty selection for an existing flight is answered with status
  200, no seat assignments and no additional cost, whoever the passengers are.\<close>

lemma empty_selection_request:
  assumes "get_fault e = None" and "update_fault e = None"
    and "tbl fid = Some flight" and "interference e tbl = tbl" and "fid \<noteq> []"
  shows "handler e tbl (post (reserveSeats_data fid [] passengers)) =
      (createResponse 200 (ReservedBody [] (Fin 0)), tbl)"
proof -
  from assms(3,4) have i: "interference e tbl fid = Some flight"
    by simp
  have "tbl(fid \<mapsto> flight) = tbl"
    using assms(3) by (simp add: map_upd_triv)
  with handler_reserve_commit [OF assms(1,2,3) i assms(5), of "[]" passengers] show ?thesis
    by (simp add: validateSeatSelection_def validateSeatAvailability_def
          validateEmergencyExitRows_def calculateSeatCost_def assms(4))
qed

end
